theory Spec2Isabelle
  imports Main "HOL-Library.Word" "HOL-Library.Signed_Division" "HOL-Library.AList"
    "HOL-Library.Monad_Syntax"
begin

unbundle bit_operations_syntax

section \<open>GoShield: a shallow embedding of goshield.go\<close>

text \<open>
  Go values are modelled as follows. A Go \<^verbatim>\<open>string\<close> is a sequence of bytes and is a HOL
  \<^typ>\<open>string\<close> (a list of 8-bit characters). A \<^verbatim>\<open>rune\<close> is a code point, an \<^typ>\<open>int\<close>.
  An \<^verbatim>\<open>int64\<close> is a 64-bit word whose arithmetic wraps around. A Go map with string keys
  is an association list with at most one entry per key. Package-level variables
  (\<^verbatim>\<open>nameMap\<close>, \<^verbatim>\<open>structTypeMapping\<close>, \<^verbatim>\<open>typeAliasMapping\<close>, the command-line
  toggles and the state of \<^verbatim>\<open>math/rand\<close>) are passed explicitly.
\<close>

subsection \<open>The random stream\<close>

text \<open>
  The state of \<^verbatim>\<open>math/rand\<close> is the stream of raw draws still to come. \<^verbatim>\<open>rand.Intn(n)\<close>
  and \<^verbatim>\<open>rand.Int63n(n)\<close> consume one draw and return a value in \<open>[0, n)\<close>; reducing an
  arbitrary raw draw modulo \<open>n\<close> reaches every such value, so a statement proved for
  every stream holds for every behaviour of the generator.
\<close>

type_synonym rng = "nat \<Rightarrow> nat"

type_synonym int64 = "64 word"

definition Intn :: "nat \<Rightarrow> rng \<Rightarrow> nat \<times> rng" where
  "Intn n g = (g 0 mod n, \<lambda>i. g (Suc i))"

definition Int63n :: "nat \<Rightarrow> rng \<Rightarrow> int64 \<times> rng" where
  "Int63n n g = (of_nat (g 0 mod n), \<lambda>i. g (Suc i))"

subsection \<open>Formatting verbs of \<^verbatim>\<open>fmt.Sprintf\<close>\<close>

definition digit_char :: "nat \<Rightarrow> char" where
  "digit_char d = (if d < 10 then char_of (48 + d) else char_of (87 + d))"

function digits_base :: "nat \<Rightarrow> nat \<Rightarrow> string" where
  "digits_base b n =
     (if b < 2 \<or> n < b then [digit_char n]
      else digits_base b (n div b) @ [digit_char (n mod b)])"
  by pat_completeness auto
termination
  by (relation "measure (\<lambda>(b, n). n)") auto

text \<open>\<^verbatim>\<open>%d\<close>: signed decimal.\<close>

definition fmt_d :: "int \<Rightarrow> string" where
  "fmt_d i = (if i < 0 then CHR ''-'' # digits_base 10 (nat (- i)) else digits_base 10 (nat i))"

text \<open>\<^verbatim>\<open>%x\<close>: signed lower-case hexadecimal.\<close>

definition fmt_x :: "int \<Rightarrow> string" where
  "fmt_x i = (if i < 0 then CHR ''-'' # digits_base 16 (nat (- i)) else digits_base 16 (nat i))"

subsection \<open>Integer obfuscation\<close>

text \<open>
  \<^verbatim>\<open>obfuscateInteger\<close> prints a parenthesised binary expression over two integer literals.
  The expression is kept as a term (\<open>iexpr\<close>) together with the text that
  \<^verbatim>\<open>fmt.Sprintf\<close> prints for it (\<open>render_iexpr\<close>); the operands are the int64 values
  that the program computed, with wrap-around, before printing them.

  The printed text is a Go constant expression over integer literals, so the compiler
  computes it exactly, on integers of any size: \<open>const_value\<close>, where \<^verbatim>\<open>^\<close> is bitwise
  exclusive or on two's complement, \<^verbatim>\<open>/\<close> truncates towards zero, and a zero divisor is an
  error (\<open>None\<close>). Where an int64 is expected the constant must fit in 64 bits, or the
  compiler rejects it: \<open>eval_iexpr\<close> is the int64 value of the text, \<open>None\<close> when it does
  not compile.
\<close>

datatype binop = OpAdd | OpSub | OpXor | OpQuo

datatype iexpr = IBin int64 binop int64

fun binop_text :: "binop \<Rightarrow> string" where
  "binop_text OpAdd = ''+''"
| "binop_text OpSub = ''-''"
| "binop_text OpXor = ''^''"
| "binop_text OpQuo = ''/''"

fun render_iexpr :: "iexpr \<Rightarrow> string" where
  "render_iexpr (IBin a oper b) =
     ''('' @ fmt_d (sint a) @ binop_text oper @ fmt_d (sint b) @ '')''"

fun const_value :: "iexpr \<Rightarrow> int option" where
  "const_value (IBin a OpAdd b) = Some (sint a + sint b)"
| "const_value (IBin a OpSub b) = Some (sint a - sint b)"
| "const_value (IBin a OpXor b) = Some (sint a XOR sint b)"
| "const_value (IBin a OpQuo b) = (if sint b = 0 then None else Some (sint a sdiv sint b))"

definition eval_iexpr :: "iexpr \<Rightarrow> int64 option" where
  "eval_iexpr e =
     (case const_value e of
        None \<Rightarrow> None
      | Some v \<Rightarrow> if - (2 ^ 63) \<le> v \<and> v < 2 ^ 63 then Some (word_of_int v) else None)"

definition obfuscateInteger_expr :: "int64 \<Rightarrow> rng \<Rightarrow> iexpr \<times> rng" where
  "obfuscateInteger_expr n g =
     (let (c, g1) = Intn 4 g in
      if c = 0 then
        (let (r, g2) = Int63n 1000 g1; x = r + 1 in (IBin (n - x) OpAdd x, g2))
      else if c = 1 then
        (let (r, g2) = Int63n 1000 g1; x = r + 1 in (IBin (n + x) OpSub x, g2))
      else if c = 2 then
        (let (r, g2) = Int63n 1000 g1; x = r + 1 in (IBin (n XOR x) OpXor x, g2))
      else
        (let (r, g2) = Int63n 10 g1; x = r + 2 in (IBin (n * x) OpQuo x, g2)))"

definition obfuscateInteger :: "int64 \<Rightarrow> rng \<Rightarrow> string \<times> rng" where
  "obfuscateInteger n g = (let (e, g') = obfuscateInteger_expr n g in (render_iexpr e, g'))"

subsection \<open>UTF-8 encoding of a rune\<close>

text \<open>
  The conversion \<^verbatim>\<open>string(r)\<close> of an integer or of a rune, and \<^verbatim>\<open>utf8.AppendRune\<close>: the UTF-8
  encoding of the code point, and the encoding of U+FFFD for a value that is not a valid
  code point (negative, a surrogate, or above U+10FFFF).
\<close>

definition encodeRune :: "int \<Rightarrow> string" where
  "encodeRune r =
     (if 0 \<le> r \<and> r \<le> 0x7F then [char_of r]
      else if 0x80 \<le> r \<and> r \<le> 0x7FF then
        [char_of (0xC0 + r div 64), char_of (0x80 + r mod 64)]
      else if r < 0 \<or> 0x10FFFF < r \<or> (0xD800 \<le> r \<and> r \<le> 0xDFFF) then
        [char_of (0xEF::int), char_of (0xBF::int), char_of (0xBD::int)]
      else if r \<le> 0xFFFF then
        [char_of (0xE0 + r div 4096), char_of (0x80 + (r div 64) mod 64),
         char_of (0x80 + r mod 64)]
      else
        [char_of (0xF0 + r div 262144), char_of (0x80 + (r div 4096) mod 64),
         char_of (0x80 + (r div 64) mod 64), char_of (0x80 + r mod 64)])"

text \<open>\<^verbatim>\<open>string(rs)\<close> of a slice of runes.\<close>

definition string_of_runes :: "int list \<Rightarrow> string" where
  "string_of_runes rs = concat (map encodeRune rs)"

subsection \<open>Name generation\<close>

text \<open>
  A Go \<^verbatim>\<open>map[string]string\<close> is an association list; \<^verbatim>\<open>m[k]\<close> is \<open>map_of m k\<close> and
  \<^verbatim>\<open>m[k] = v\<close> is \<open>AList.update k v m\<close>, which replaces the entry of \<open>k\<close> in place or
  appends a new one. A \<^verbatim>\<open>map[string]bool\<close> that only ever stores \<^verbatim>\<open>true\<close> is a set.
\<close>

type_synonym strmap = "(string \<times> string) list"

definition letters :: "int list" where
  "letters = map of_char ''abcdefghijklmnopqrstuvwxyzABCDEFGHIJKLMNOPQRSTUVWXYZ''"

text \<open>The confusable table: Latin letters and digits, each followed by its Cyrillic lookalike.\<close>

definition obfuscationChars :: "int list" where
  "obfuscationChars =
     [0x4F, 0x30, 0x6F,
      0x6C, 0x49, 0x31,
      0x61, 0x430,
      0x65, 0x435,
      0x70, 0x440,
      0x63, 0x441,
      0x78, 0x445,
      0x79, 0x443,
      0x6B, 0x43A,
      0x42, 0x412,
      0x48, 0x41D,
      0x4D, 0x41C,
      0x54, 0x422]"

text \<open>The loop \<^verbatim>\<open>for i := 1; i < length; i++\<close> of \<^verbatim>\<open>generateObfuscatedName\<close>: one draw per rune.\<close>

fun drawRunes :: "nat \<Rightarrow> rng \<Rightarrow> int list \<times> rng" where
  "drawRunes 0 g = ([], g)"
| "drawRunes (Suc n) g =
     (let (k, g1) = Intn (length obfuscationChars) g;
          (rs, g2) = drawRunes n g1
      in (obfuscationChars ! k # rs, g2))"

text \<open>\<open>None\<close> is the panic of \<^verbatim>\<open>result[0]\<close> on an empty slice.\<close>

definition generateObfuscatedName :: "nat \<Rightarrow> rng \<Rightarrow> (string \<times> rng) option" where
  "generateObfuscatedName len g =
     (if len = 0 then None
      else
        (let (k, g1) = Intn (length letters) g;
             (rs, g2) = drawRunes (len - 1) g1
         in Some (string_of_runes (letters ! k # rs), g2)))"

text \<open>
  The retry loop of \<^verbatim>\<open>getObfuscatedName\<close>: draw a candidate, look for it among the values
  of \<^verbatim>\<open>nameMap\<close>, and draw again when it is there. The loop has no bound, so it is a
  partial function: \<open>None\<close> when it never ends.
\<close>

partial_function (option) freshName :: "strmap \<Rightarrow> rng \<Rightarrow> (string \<times> rng) option" where
  "freshName nm g =
     (case generateObfuscatedName 20 g of
        None \<Rightarrow> None
      | Some (newName, g') \<Rightarrow>
          if newName \<in> snd ` set nm then freshName nm g' else Some (newName, g'))"

declare freshName.simps [code]

text \<open>The package-level variables, and the state of \<^verbatim>\<open>math/rand\<close>.\<close>

record globals =
  nameMap :: strmap
  structTypeMapping :: strmap
  typeAliasMapping :: strmap
  rand :: rng

definition getObfuscatedName :: "string \<Rightarrow> globals \<Rightarrow> (string \<times> globals) option" where
  "getObfuscatedName original G =
     (case map_of (nameMap G) original of
        Some existing \<Rightarrow> Some (existing, G)
      | None \<Rightarrow>
          (case freshName (nameMap G) (rand G) of
             None \<Rightarrow> None
           | Some (newName, g') \<Rightarrow>
               Some (newName, G\<lparr>nameMap := AList.update original newName (nameMap G), rand := g'\<rparr>)))"

text \<open>The command-line toggles.\<close>

record config =
  noInts :: bool
  noStrings :: bool
  noVars :: bool
  noFunctions :: bool
  noImports :: bool

definition reservedNames :: "string set" where
  "reservedNames =
     {''Error'', ''String'',
      ''Read'', ''Write'', ''Close'', ''Seek'',
      ''Len'', ''Cap'', ''Copy'', ''Append'',
      ''ServeHTTP'', ''Header'', ''Body'', ''Status'', ''StatusCode'',
      ''MarshalJSON'', ''UnmarshalJSON'',
      ''Context'', ''Err'', ''Done'', ''Value'', ''Deadline'',
      ''Lock'', ''Unlock'', ''RLock'', ''RUnlock'',
      ''ID'', ''URL'', ''URI'', ''HTML''}"

subsection \<open>The syntax tree\<close>

text \<open>
  The nodes of \<^verbatim>\<open>go/ast\<close> that the passes inspect, with the fields they read or that
  \<^verbatim>\<open>ast.Walk\<close> descends into, in the order \<^verbatim>\<open>ast.Walk\<close> visits them. Every other kind of
  node (statements, the remaining expressions and types) is \<open>Other\<close> with its children in
  that order: no pass looks at such a node, it is only walked through. An identifier
  carries its name and the kind of the object the parser resolved it to (\<^verbatim>\<open>Obj\<close>, which
  may be nil).
\<close>

datatype objKind = Bad | Pkg | Con | Typ | Var | Fun | Lbl

datatype token = IMPORT_tok | CONST_tok | TYPE_tok | VAR_tok

record ident =
  Name :: string
  Obj :: "objKind option"

datatype node =
    Ident ident
  | BasicLit string
  | SelectorExpr node ident
  | CallExpr node "node list"
  | Field "ident list" "node option" "node option"
  | FieldList "node list"
  | StructType "node option"
  | TypeSpec ident "node option" node
  | ValueSpec "ident list" "node option" "node list"
  | ImportSpec "ident option" string
  | GenDecl token "node list"
  | FuncDecl "node option" ident node "node option"
  | File ident "node list"
  | Other "node list"

text \<open>
  The callbacks passed to \<^verbatim>\<open>ast.Inspect\<close> mutate the node they are called on, and only
  by assigning a name or a token. A callback of the model returns the assignment it makes
  (\<open>edit\<close>) and the new state; \<open>apply_edit\<close> carries the assignment out.
  \<^item> \<open>SetName\<close>: \<^verbatim>\<open>ident.Name = x\<close> on an identifier;
  \<^item> \<open>SetTok\<close>: \<^verbatim>\<open>genDecl.Tok = t\<close>;
  \<^item> \<open>SetDeclName\<close>: \<^verbatim>\<open>fn.Name.Name = x\<close> on a function declaration;
  \<^item> \<open>SetFunName\<close>: \<^verbatim>\<open>call.Fun.(*ast.Ident).Name = x\<close>;
  \<^item> \<open>SetFunSel\<close>: \<^verbatim>\<open>call.Fun.(*ast.SelectorExpr).Sel.Name = x\<close>;
  \<^item> \<open>SetX\<close>: \<^verbatim>\<open>sel.X.(*ast.Ident).Name = x\<close>;
  \<^item> \<open>SetSel\<close>: \<^verbatim>\<open>sel.Sel.Name = x\<close>.
\<close>

datatype edit =
    Keep
  | SetName string
  | SetTok token
  | SetDeclName string
  | SetFunName string
  | SetFunSel string
  | SetX string
  | SetSel string

definition rename :: "string \<Rightarrow> ident \<Rightarrow> ident" where
  "rename x i = i\<lparr>Name := x\<rparr>"

primrec apply_edit :: "edit \<Rightarrow> node \<Rightarrow> node" where
  "apply_edit Keep n = n"
| "apply_edit (SetName x) n = (case n of Ident i \<Rightarrow> Ident (rename x i) | _ \<Rightarrow> n)"
| "apply_edit (SetTok t) n = (case n of GenDecl tok specs \<Rightarrow> GenDecl t specs | _ \<Rightarrow> n)"
| "apply_edit (SetDeclName x) n =
     (case n of FuncDecl recv nm ty body \<Rightarrow> FuncDecl recv (rename x nm) ty body | _ \<Rightarrow> n)"
| "apply_edit (SetFunName x) n =
     (case n of
        CallExpr fn args \<Rightarrow>
          (case fn of Ident i \<Rightarrow> CallExpr (Ident (rename x i)) args | _ \<Rightarrow> n)
      | _ \<Rightarrow> n)"
| "apply_edit (SetFunSel x) n =
     (case n of
        CallExpr fn args \<Rightarrow>
          (case fn of SelectorExpr y sel \<Rightarrow> CallExpr (SelectorExpr y (rename x sel)) args | _ \<Rightarrow> n)
      | _ \<Rightarrow> n)"
| "apply_edit (SetX x) n =
     (case n of
        SelectorExpr y sel \<Rightarrow>
          (case y of Ident i \<Rightarrow> SelectorExpr (Ident (rename x i)) sel | _ \<Rightarrow> n)
      | _ \<Rightarrow> n)"
| "apply_edit (SetSel x) n =
     (case n of SelectorExpr y sel \<Rightarrow> SelectorExpr y (rename x sel) | _ \<Rightarrow> n)"

text \<open>The identifier that an edit leaves in place of an identifier node.\<close>

definition edit_ident :: "edit \<Rightarrow> ident \<Rightarrow> ident" where
  "edit_ident e i = (case e of SetName x \<Rightarrow> rename x i | _ \<Rightarrow> i)"

type_synonym 's visitor = "'s \<Rightarrow> node \<Rightarrow> (edit \<times> 's) option"

text \<open>Visiting an identifier held in a field of its parent, and a list of them.\<close>

definition inspect_ident :: "'s visitor \<Rightarrow> 's \<Rightarrow> ident \<Rightarrow> (ident \<times> 's) option" where
  "inspect_ident f s i =
     (case f s (Ident i) of None \<Rightarrow> None | Some (e, s') \<Rightarrow> Some (edit_ident e i, s'))"

fun inspect_idents :: "'s visitor \<Rightarrow> 's \<Rightarrow> ident list \<Rightarrow> (ident list \<times> 's) option" where
  "inspect_idents f s [] = Some ([], s)"
| "inspect_idents f s (i # is) =
     (case inspect_ident f s i of
        None \<Rightarrow> None
      | Some (i', s1) \<Rightarrow>
          (case inspect_idents f s1 is of
             None \<Rightarrow> None
           | Some (is', s2) \<Rightarrow> Some (i' # is', s2)))"

definition inspect_ident_opt ::
  "'s visitor \<Rightarrow> 's \<Rightarrow> ident option \<Rightarrow> (ident option \<times> 's) option" where
  "inspect_ident_opt f s io =
     (case io of
        None \<Rightarrow> Some (None, s)
      | Some i \<Rightarrow>
          (case inspect_ident f s i of None \<Rightarrow> None | Some (i', s') \<Rightarrow> Some (Some i', s')))"

lemma size_apply_edit [simp]: "size (apply_edit e n) = size n"
  by (cases e) (auto split: node.splits)

text \<open>
  \<^verbatim>\<open>ast.Inspect(root, f)\<close> with a callback that always returns \<^verbatim>\<open>true\<close>, as every callback
  of the program does: call \<open>f\<close> on the node, then walk the children of the node as \<open>f\<close>
  left it, depth first, threading the state. \<open>None\<close> when a call of \<open>f\<close> does not return.
\<close>

function inspect :: "'s visitor \<Rightarrow> 's \<Rightarrow> node \<Rightarrow> (node \<times> 's) option"
  and walk :: "'s visitor \<Rightarrow> 's \<Rightarrow> node \<Rightarrow> (node \<times> 's) option"
  and inspect_list :: "'s visitor \<Rightarrow> 's \<Rightarrow> node list \<Rightarrow> (node list \<times> 's) option"
  and inspect_opt :: "'s visitor \<Rightarrow> 's \<Rightarrow> node option \<Rightarrow> (node option \<times> 's) option"
where
  "inspect f s n =
     (case f s n of None \<Rightarrow> None | Some (e, s') \<Rightarrow> walk f s' (apply_edit e n))"
| "walk f s (Ident i) = Some (Ident i, s)"
| "walk f s (BasicLit v) = Some (BasicLit v, s)"
| "walk f s (SelectorExpr x sel) =
     (case inspect f s x of None \<Rightarrow> None | Some (x', s1) \<Rightarrow>
      (case inspect_ident f s1 sel of None \<Rightarrow> None | Some (sel', s2) \<Rightarrow>
       Some (SelectorExpr x' sel', s2)))"
| "walk f s (CallExpr fn args) =
     (case inspect f s fn of None \<Rightarrow> None | Some (fn', s1) \<Rightarrow>
      (case inspect_list f s1 args of None \<Rightarrow> None | Some (args', s2) \<Rightarrow>
       Some (CallExpr fn' args', s2)))"
| "walk f s (Field names ty tag) =
     (case inspect_idents f s names of None \<Rightarrow> None | Some (names', s1) \<Rightarrow>
      (case inspect_opt f s1 ty of None \<Rightarrow> None | Some (ty', s2) \<Rightarrow>
       (case inspect_opt f s2 tag of None \<Rightarrow> None | Some (tag', s3) \<Rightarrow>
        Some (Field names' ty' tag', s3))))"
| "walk f s (FieldList fs) =
     (case inspect_list f s fs of None \<Rightarrow> None | Some (fs', s1) \<Rightarrow> Some (FieldList fs', s1))"
| "walk f s (StructType fl) =
     (case inspect_opt f s fl of None \<Rightarrow> None | Some (fl', s1) \<Rightarrow> Some (StructType fl', s1))"
| "walk f s (TypeSpec nm tps ty) =
     (case inspect_ident f s nm of None \<Rightarrow> None | Some (nm', s1) \<Rightarrow>
      (case inspect_opt f s1 tps of None \<Rightarrow> None | Some (tps', s2) \<Rightarrow>
       (case inspect f s2 ty of None \<Rightarrow> None | Some (ty', s3) \<Rightarrow>
        Some (TypeSpec nm' tps' ty', s3))))"
| "walk f s (ValueSpec names ty vals) =
     (case inspect_idents f s names of None \<Rightarrow> None | Some (names', s1) \<Rightarrow>
      (case inspect_opt f s1 ty of None \<Rightarrow> None | Some (ty', s2) \<Rightarrow>
       (case inspect_list f s2 vals of None \<Rightarrow> None | Some (vals', s3) \<Rightarrow>
        Some (ValueSpec names' ty' vals', s3))))"
| "walk f s (ImportSpec nm path) =
     (case inspect_ident_opt f s nm of None \<Rightarrow> None | Some (nm', s1) \<Rightarrow>
      (case f s1 (BasicLit path) of None \<Rightarrow> None | Some (e, s2) \<Rightarrow>
       Some (ImportSpec nm' path, s2)))"
| "walk f s (GenDecl tok specs) =
     (case inspect_list f s specs of None \<Rightarrow> None | Some (specs', s1) \<Rightarrow>
      Some (GenDecl tok specs', s1))"
| "walk f s (FuncDecl recv nm ty body) =
     (case inspect_opt f s recv of None \<Rightarrow> None | Some (recv', s1) \<Rightarrow>
      (case inspect_ident f s1 nm of None \<Rightarrow> None | Some (nm', s2) \<Rightarrow>
       (case inspect f s2 ty of None \<Rightarrow> None | Some (ty', s3) \<Rightarrow>
        (case inspect_opt f s3 body of None \<Rightarrow> None | Some (body', s4) \<Rightarrow>
         Some (FuncDecl recv' nm' ty' body', s4)))))"
| "walk f s (File nm decls) =
     (case inspect_ident f s nm of None \<Rightarrow> None | Some (nm', s1) \<Rightarrow>
      (case inspect_list f s1 decls of None \<Rightarrow> None | Some (decls', s2) \<Rightarrow>
       Some (File nm' decls', s2)))"
| "walk f s (Other cs) =
     (case inspect_list f s cs of None \<Rightarrow> None | Some (cs', s1) \<Rightarrow> Some (Other cs', s1))"
| "inspect_list f s [] = Some ([], s)"
| "inspect_list f s (n # ns) =
     (case inspect f s n of None \<Rightarrow> None | Some (n', s1) \<Rightarrow>
      (case inspect_list f s1 ns of None \<Rightarrow> None | Some (ns', s2) \<Rightarrow> Some (n' # ns', s2)))"
| "inspect_opt f s None = Some (None, s)"
| "inspect_opt f s (Some n) =
     (case inspect f s n of None \<Rightarrow> None | Some (n', s1) \<Rightarrow> Some (Some n', s1))"
  by pat_completeness auto
termination
  by (relation "measure (\<lambda>x. case x of
         Inl (Inl (f, s, n)) \<Rightarrow> 2 * size n + 1
       | Inl (Inr (f, s, n)) \<Rightarrow> 2 * size n
       | Inr (Inl (f, s, ns)) \<Rightarrow> 2 * size_list size ns + 1
       | Inr (Inr (f, s, t)) \<Rightarrow> 2 * size_option size t + 1)") auto

subsection \<open>The obfuscator and its collection passes\<close>

record Obfuscator =
  astFile :: node
  declaredFuncs :: "string set"
  declaredMethods :: "string set"
  importAliases :: strmap
  structFields :: "string set"
  typeNames :: "string set"
  structTypes :: "string set"
  fieldNames :: strmap

definition NewObfuscator :: "node \<Rightarrow> Obfuscator" where
  "NewObfuscator f =
     \<lparr>astFile = f, declaredFuncs = {}, declaredMethods = {}, importAliases = [],
      structFields = {}, typeNames = {}, structTypes = {}, fieldNames = []\<rparr>"

text \<open>
  The field \<^verbatim>\<open>file\<close> of the struct is \<open>astFile\<close>. Each pass runs \<^verbatim>\<open>ast.Inspect\<close> over
  it; \<open>inspect_file\<close> stores the tree the traversal leaves.
\<close>

definition inspect_file :: "(Obfuscator \<times> 'g) visitor \<Rightarrow> Obfuscator \<Rightarrow> 'g \<Rightarrow> (Obfuscator \<times> 'g) option" where
  "inspect_file f ob G =
     do { (n, (ob', G')) \<leftarrow> inspect f (ob, G) (astFile ob); Some (ob'\<lparr>astFile := n\<rparr>, G') }"

definition collectTypeNames_visit :: "(Obfuscator \<times> 'g) visitor" where
  "collectTypeNames_visit = (\<lambda>(ob, G) n.
     (case n of
        TypeSpec nm tps ty \<Rightarrow> Some (Keep, (ob\<lparr>typeNames := insert (Name nm) (typeNames ob)\<rparr>, G))
      | _ \<Rightarrow> Some (Keep, (ob, G))))"

definition collectTypeNames :: "Obfuscator \<Rightarrow> 'g \<Rightarrow> (Obfuscator \<times> 'g) option" where
  "collectTypeNames = inspect_file collectTypeNames_visit"

definition collectDeclaredFunctions_visit :: "(Obfuscator \<times> 'g) visitor" where
  "collectDeclaredFunctions_visit = (\<lambda>(ob, G) n.
     (case n of
        FuncDecl recv nm ty body \<Rightarrow>
          (if Name nm = ''main'' \<or> Name nm = ''init'' then Some (Keep, (ob, G))
           else if recv = None then
             Some (Keep, (ob\<lparr>declaredFuncs := insert (Name nm) (declaredFuncs ob)\<rparr>, G))
           else
             Some (Keep, (ob\<lparr>declaredMethods := insert (Name nm) (declaredMethods ob)\<rparr>, G)))
      | _ \<Rightarrow> Some (Keep, (ob, G))))"

definition collectDeclaredFunctions :: "Obfuscator \<Rightarrow> 'g \<Rightarrow> (Obfuscator \<times> 'g) option" where
  "collectDeclaredFunctions = inspect_file collectDeclaredFunctions_visit"

text \<open>
  The names of \<^verbatim>\<open>structType.Fields.List\<close>, field by field: \<^verbatim>\<open>field.Names\<close> in order.
  No name when \<^verbatim>\<open>Fields\<close> is nil.
\<close>

definition fieldListNames :: "node option \<Rightarrow> string list" where
  "fieldListNames fl =
     (case fl of
        Some (FieldList fs) \<Rightarrow>
          concat (map (\<lambda>fd. case fd of Field names ty tag \<Rightarrow> map Name names | _ \<Rightarrow> []) fs)
      | _ \<Rightarrow> [])"

definition collectStructFields_visit :: "(Obfuscator \<times> 'g) visitor" where
  "collectStructFields_visit = (\<lambda>(ob, G) n.
     (case n of
        StructType fl \<Rightarrow>
          Some (Keep,
            (ob\<lparr>structFields := {x \<in> set (fieldListNames fl). x \<notin> reservedNames} \<union> structFields ob\<rparr>, G))
      | _ \<Rightarrow> Some (Keep, (ob, G))))"

definition collectStructFields :: "Obfuscator \<Rightarrow> 'g \<Rightarrow> (Obfuscator \<times> 'g) option" where
  "collectStructFields = inspect_file collectStructFields_visit"

definition isStructType :: "node \<Rightarrow> bool" where
  "isStructType n = (case n of StructType fl \<Rightarrow> True | _ \<Rightarrow> False)"

definition collectStructTypes_visit :: "(Obfuscator \<times> globals) visitor" where
  "collectStructTypes_visit = (\<lambda>(ob, G) n.
     (case n of
        TypeSpec nm tps ty \<Rightarrow>
          (if isStructType ty then
             do {
               (obfuscatedName, G1) \<leftarrow> getObfuscatedName (Name nm) G;
               Some (Keep,
                 (ob\<lparr>structTypes := insert (Name nm) (structTypes ob)\<rparr>,
                  G1\<lparr>structTypeMapping :=
                       AList.update (Name nm) obfuscatedName (structTypeMapping G1)\<rparr>))
             }
           else
             do {
               (obfuscatedName, G1) \<leftarrow> getObfuscatedName (Name nm) G;
               Some (Keep,
                 (ob, G1\<lparr>typeAliasMapping :=
                            AList.update (Name nm) obfuscatedName (typeAliasMapping G1)\<rparr>))
             })
      | _ \<Rightarrow> Some (Keep, (ob, G))))"

definition collectStructTypes :: "Obfuscator \<Rightarrow> globals \<Rightarrow> (Obfuscator \<times> globals) option" where
  "collectStructTypes = inspect_file collectStructTypes_visit"

subsection \<open>The obfuscation passes over the tree\<close>

definition obfuscateConsts_visit :: "(Obfuscator \<times> 'g) visitor" where
  "obfuscateConsts_visit = (\<lambda>(ob, G) n.
     (case n of
        GenDecl tok specs \<Rightarrow> (if tok = CONST_tok then Some (SetTok VAR_tok, (ob, G)) else Some (Keep, (ob, G)))
      | _ \<Rightarrow> Some (Keep, (ob, G))))"

definition obfuscateConsts :: "Obfuscator \<Rightarrow> 'g \<Rightarrow> (Obfuscator \<times> 'g) option" where
  "obfuscateConsts = inspect_file obfuscateConsts_visit"

text \<open>\<^verbatim>\<open>strings.Trim(s, cutset)\<close> and \<^verbatim>\<open>strings.Split(s, sep)\<close> for a separator of one byte.\<close>

definition Trim :: "string \<Rightarrow> char set \<Rightarrow> string" where
  "Trim s cutset = rev (dropWhile (\<lambda>c. c \<in> cutset) (rev (dropWhile (\<lambda>c. c \<in> cutset) s)))"

fun Split :: "string \<Rightarrow> char \<Rightarrow> string list" where
  "Split [] sep = [[]]"
| "Split (c # cs) sep =
     (if c = sep then [] # Split cs sep
      else (case Split cs sep of [] \<Rightarrow> [[c]] | p # ps \<Rightarrow> (c # p) # ps))"

definition importBaseName :: "string \<Rightarrow> string" where
  "importBaseName pathValue = last (Split (Trim pathValue {CHR 0x22}) CHR ''/'')"

text \<open>
  The body of the inner loop of \<^verbatim>\<open>obfuscateImports\<close>, for one spec of an import
  declaration; the loops over \<^verbatim>\<open>genDecl.Specs\<close> and over \<^verbatim>\<open>o.file.Decls\<close>.
\<close>

definition obfuscateImportSpec ::
  "node \<Rightarrow> Obfuscator \<times> globals \<Rightarrow> (node \<times> Obfuscator \<times> globals) option" where
  "obfuscateImportSpec spec = (\<lambda>(ob, G).
     (case spec of
        ImportSpec nm pathValue \<Rightarrow>
          do {
            (obfuscated, G1) \<leftarrow> getObfuscatedName (importBaseName pathValue) G;
            Some (ImportSpec (Some \<lparr>Name = obfuscated, Obj = None\<rparr>) pathValue,
                  ob\<lparr>importAliases :=
                       AList.update (importBaseName pathValue) obfuscated (importAliases ob)\<rparr>,
                  G1)
          }
      | _ \<Rightarrow> Some (spec, ob, G)))"

fun obfuscateImportSpecs ::
  "node list \<Rightarrow> Obfuscator \<times> globals \<Rightarrow> (node list \<times> Obfuscator \<times> globals) option" where
  "obfuscateImportSpecs [] (ob, G) = Some ([], ob, G)"
| "obfuscateImportSpecs (spec # specs) (ob, G) =
     do {
       (spec', ob1, G1) \<leftarrow> obfuscateImportSpec spec (ob, G);
       (specs', ob2, G2) \<leftarrow> obfuscateImportSpecs specs (ob1, G1);
       Some (spec' # specs', ob2, G2)
     }"

fun obfuscateImportDecls ::
  "node list \<Rightarrow> Obfuscator \<times> globals \<Rightarrow> (node list \<times> Obfuscator \<times> globals) option" where
  "obfuscateImportDecls [] (ob, G) = Some ([], ob, G)"
| "obfuscateImportDecls (decl # decls) (ob, G) =
     do {
       (decl', ob1, G1) \<leftarrow>
         (case decl of
            GenDecl tok specs \<Rightarrow>
              (if tok \<noteq> IMPORT_tok then Some (decl, ob, G)
               else do {
                 (specs', ob1, G1) \<leftarrow> obfuscateImportSpecs specs (ob, G);
                 Some (GenDecl tok specs', ob1, G1)
               })
          | _ \<Rightarrow> Some (decl, ob, G));
       (decls', ob2, G2) \<leftarrow> obfuscateImportDecls decls (ob1, G1);
       Some (decl' # decls', ob2, G2)
     }"

definition obfuscateImports :: "config \<Rightarrow> Obfuscator \<Rightarrow> globals \<Rightarrow> (Obfuscator \<times> globals) option" where
  "obfuscateImports cfg ob G =
     (if noImports cfg then Some (ob, G)
      else
        (case astFile ob of
           File nm decls \<Rightarrow>
             do {
               (decls', ob1, G1) \<leftarrow> obfuscateImportDecls decls (ob, G);
               Some (ob1\<lparr>astFile := File nm decls'\<rparr>, G1)
             }
         | _ \<Rightarrow> Some (ob, G)))"

definition updateImportReferences_visit :: "(Obfuscator \<times> 'g) visitor" where
  "updateImportReferences_visit = (\<lambda>(ob, G) n.
     (case n of
        SelectorExpr x sel \<Rightarrow>
          (case x of
             Ident i \<Rightarrow>
               (case map_of (importAliases ob) (Name i) of
                  Some a \<Rightarrow> Some (SetX a, (ob, G))
                | None \<Rightarrow> Some (Keep, (ob, G)))
           | _ \<Rightarrow> Some (Keep, (ob, G)))
      | _ \<Rightarrow> Some (Keep, (ob, G))))"

definition updateImportReferences :: "config \<Rightarrow> Obfuscator \<Rightarrow> 'g \<Rightarrow> (Obfuscator \<times> 'g) option" where
  "updateImportReferences cfg ob G =
     (if noImports cfg then Some (ob, G) else inspect_file updateImportReferences_visit ob G)"

text \<open>
  \<^verbatim>\<open>obfuscateStructTypes\<close>: a first traversal collects the name of every field of every
  struct type (reserved or not), a second one rewrites the identifiers. The second lookup
  reads \<^verbatim>\<open>ident.Name\<close> after the first assignment.
\<close>

definition fieldNameSet_visit :: "string set visitor" where
  "fieldNameSet_visit = (\<lambda>fieldNameSet n.
     (case n of
        StructType fl \<Rightarrow> Some (Keep, set (fieldListNames fl) \<union> fieldNameSet)
      | _ \<Rightarrow> Some (Keep, fieldNameSet)))"

definition structTypeName :: "string set \<Rightarrow> globals \<Rightarrow> string \<Rightarrow> string" where
  "structTypeName fieldNameSet G name =
     (if name \<in> fieldNameSet then name
      else
        (let name1 = (case map_of (structTypeMapping G) name of
                        Some obfuscated \<Rightarrow> obfuscated | None \<Rightarrow> name);
             name2 = (case map_of (typeAliasMapping G) name1 of
                        Some obfuscated \<Rightarrow> obfuscated | None \<Rightarrow> name1)
         in name2))"

definition obfuscateStructTypes_visit :: "string set \<Rightarrow> (Obfuscator \<times> globals) visitor" where
  "obfuscateStructTypes_visit fieldNameSet = (\<lambda>(ob, G) n.
     (case n of
        Ident i \<Rightarrow> Some (SetName (structTypeName fieldNameSet G (Name i)), (ob, G))
      | _ \<Rightarrow> Some (Keep, (ob, G))))"

definition obfuscateStructTypes :: "Obfuscator \<Rightarrow> globals \<Rightarrow> (Obfuscator \<times> globals) option" where
  "obfuscateStructTypes ob G =
     do {
       (n, fieldNameSet) \<leftarrow> inspect fieldNameSet_visit {} (astFile ob);
       inspect_file (obfuscateStructTypes_visit fieldNameSet) ob G
     }"

text \<open>
  \<^verbatim>\<open>obfuscateVariables\<close>: the names of the package-level \<^verbatim>\<open>var\<close> declarations (a loop over
  \<^verbatim>\<open>o.file.Decls\<close>), then a traversal that renames identifiers.
\<close>

definition valueSpecNames :: "node \<Rightarrow> string list" where
  "valueSpecNames spec =
     (case spec of
        ValueSpec names ty vals \<Rightarrow>
          filter (\<lambda>x. x \<noteq> ''_'' \<and> x \<notin> reservedNames) (map Name names)
      | _ \<Rightarrow> [])"

definition packageVarsOf :: "node \<Rightarrow> string set" where
  "packageVarsOf f =
     (case f of
        File nm decls \<Rightarrow>
          set (concat (map (\<lambda>decl.
            (case decl of
               GenDecl tok specs \<Rightarrow>
                 (if tok \<noteq> VAR_tok then [] else concat (map valueSpecNames specs))
             | _ \<Rightarrow> [])) decls))
      | _ \<Rightarrow> {})"

definition obfuscateVariables_visit :: "string set \<Rightarrow> (Obfuscator \<times> globals) visitor" where
  "obfuscateVariables_visit packageVars = (\<lambda>(ob, G) n.
     (case n of
        Ident i \<Rightarrow>
          (if Name i \<in> reservedNames \<or> Name i \<in> structTypes ob \<or> Name i \<in> structFields ob then
             Some (Keep, (ob, G))
           else if map_of (typeAliasMapping G) (Name i) \<noteq> None then Some (Keep, (ob, G))
           else if Name i \<in> packageVars then
             do { (x, G1) \<leftarrow> getObfuscatedName (Name i) G; Some (SetName x, (ob, G1)) }
           else if Obj i = Some Var \<and> Name i \<noteq> ''_'' then
             do { (x, G1) \<leftarrow> getObfuscatedName (Name i) G; Some (SetName x, (ob, G1)) }
           else Some (Keep, (ob, G)))
      | _ \<Rightarrow> Some (Keep, (ob, G))))"

definition obfuscateVariables :: "config \<Rightarrow> Obfuscator \<Rightarrow> globals \<Rightarrow> (Obfuscator \<times> globals) option" where
  "obfuscateVariables cfg ob G =
     (if noVars cfg then Some (ob, G)
      else inspect_file (obfuscateVariables_visit (packageVarsOf (astFile ob))) ob G)"

text \<open>\<^verbatim>\<open>obfuscateFunctions\<close>: declarations, then calls, then the remaining selectors.\<close>

definition obfuscateFuncDecl_visit :: "(Obfuscator \<times> globals) visitor" where
  "obfuscateFuncDecl_visit = (\<lambda>(ob, G) n.
     (case n of
        FuncDecl recv nm ty body \<Rightarrow>
          (if Name nm \<in> declaredFuncs ob \<or> Name nm \<in> declaredMethods ob then
             do { (x, G1) \<leftarrow> getObfuscatedName (Name nm) G; Some (SetDeclName x, (ob, G1)) }
           else Some (Keep, (ob, G)))
      | _ \<Rightarrow> Some (Keep, (ob, G))))"

definition obfuscateCall_visit :: "(Obfuscator \<times> globals) visitor" where
  "obfuscateCall_visit = (\<lambda>(ob, G) n.
     (case n of
        CallExpr fn args \<Rightarrow>
          (case fn of
             Ident i \<Rightarrow>
               (if Name i \<in> declaredFuncs ob then
                  do { (x, G1) \<leftarrow> getObfuscatedName (Name i) G; Some (SetFunName x, (ob, G1)) }
                else Some (Keep, (ob, G)))
           | SelectorExpr y sel \<Rightarrow>
               (if Name sel \<in> declaredMethods ob then
                  do { (x, G1) \<leftarrow> getObfuscatedName (Name sel) G; Some (SetFunSel x, (ob, G1)) }
                else Some (Keep, (ob, G)))
           | _ \<Rightarrow> Some (Keep, (ob, G)))
      | _ \<Rightarrow> Some (Keep, (ob, G))))"

definition obfuscateSelector_visit :: "(Obfuscator \<times> globals) visitor" where
  "obfuscateSelector_visit = (\<lambda>(ob, G) n.
     (case n of
        SelectorExpr y sel \<Rightarrow>
          (if Name sel \<in> declaredMethods ob \<and> Name sel \<notin> structFields ob then
             do { (x, G1) \<leftarrow> getObfuscatedName (Name sel) G; Some (SetSel x, (ob, G1)) }
           else Some (Keep, (ob, G)))
      | _ \<Rightarrow> Some (Keep, (ob, G))))"

definition obfuscateFunctions :: "config \<Rightarrow> Obfuscator \<Rightarrow> globals \<Rightarrow> (Obfuscator \<times> globals) option" where
  "obfuscateFunctions cfg ob G =
     (if noFunctions cfg then Some (ob, G)
      else
        do {
          (ob1, G1) \<leftarrow> inspect_file obfuscateFuncDecl_visit ob G;
          (ob2, G2) \<leftarrow> inspect_file obfuscateCall_visit ob1 G1;
          inspect_file obfuscateSelector_visit ob2 G2
        })"

text \<open>
  The part of \<^verbatim>\<open>main\<close> between parsing and printing: the maps start empty, the random stream
  is the seeded one, and the passes run in this order.
\<close>

definition initialGlobals :: "rng \<Rightarrow> globals" where
  "initialGlobals g = \<lparr>nameMap = [], structTypeMapping = [], typeAliasMapping = [], rand = g\<rparr>"

definition collectAll :: "node \<Rightarrow> rng \<Rightarrow> (Obfuscator \<times> globals) option" where
  "collectAll f g =
     do {
       (ob1, G1) \<leftarrow> collectTypeNames (NewObfuscator f) (initialGlobals g);
       (ob2, G2) \<leftarrow> collectDeclaredFunctions ob1 G1;
       (ob3, G3) \<leftarrow> collectStructFields ob2 G2;
       collectStructTypes ob3 G3
     }"

definition obfuscateTree :: "config \<Rightarrow> node \<Rightarrow> rng \<Rightarrow> (Obfuscator \<times> globals) option" where
  "obfuscateTree cfg f g =
     do {
       (ob4, G4) \<leftarrow> collectAll f g;
       (ob5, G5) \<leftarrow> obfuscateConsts ob4 G4;
       (ob6, G6) \<leftarrow> obfuscateImports cfg ob5 G5;
       (ob7, G7) \<leftarrow> updateImportReferences cfg ob6 G6;
       (ob8, G8) \<leftarrow> obfuscateStructTypes ob7 G7;
       (ob9, G9) \<leftarrow> obfuscateVariables cfg ob8 G8;
       obfuscateFunctions cfg ob9 G9
     }"

subsection \<open>Notions used in the statements\<close>

text \<open>\<^verbatim>\<open>nameMap\<close> is injective: no two keys hold the same replacement.\<close>

definition names_injective :: "strmap \<Rightarrow> bool" where
  "names_injective nm = (\<forall>a b x. map_of nm a = Some x \<and> map_of nm b = Some x \<longrightarrow> a = b)"



definition keeps_injective :: "globals \<Rightarrow> globals \<Rightarrow> bool" where
  "keeps_injective G G' = (names_injective (nameMap G) \<longrightarrow> names_injective (nameMap G'))"

text \<open>The specs of the import declarations of a file, in order.\<close>

definition importDeclSpecs :: "node \<Rightarrow> node list" where
  "importDeclSpecs d =
     (case d of GenDecl tok specs \<Rightarrow> (if tok = IMPORT_tok then specs else []) | _ \<Rightarrow> [])"

definition importSpecsOf :: "node \<Rightarrow> node list" where
  "importSpecsOf f =
     (case f of File nm decls \<Rightarrow> concat (map importDeclSpecs decls) | _ \<Rightarrow> [])"



text \<open>Concrete inputs: every toggle at its default, and a file importing two packages named \<^verbatim>\<open>template\<close>.\<close>

definition allOn :: config where
  "allOn = \<lparr>noInts = False, noStrings = False, noVars = False, noFunctions = False, noImports = False\<rparr>"


text \<open>
  The shape of a tree: every identifier's name erased, and a \<^verbatim>\<open>const\<close> declaration read as
  the \<^verbatim>\<open>var\<close> declaration that \<^verbatim>\<open>obfuscateConsts\<close> turns it into. A callback is tame when
  its assignments leave the shape of the node alone.
\<close>

definition erase :: "ident \<Rightarrow> ident" where
  "erase i = i\<lparr>Name := []\<rparr>"

fun skeleton :: "node \<Rightarrow> node" where
  "skeleton (Ident i) = Ident (erase i)"
| "skeleton (BasicLit v) = BasicLit v"
| "skeleton (SelectorExpr x sel) = SelectorExpr (skeleton x) (erase sel)"
| "skeleton (CallExpr fn args) = CallExpr (skeleton fn) (map skeleton args)"
| "skeleton (Field names ty tag) =
     Field (map erase names) (map_option skeleton ty) (map_option skeleton tag)"
| "skeleton (FieldList fs) = FieldList (map skeleton fs)"
| "skeleton (StructType fl) = StructType (map_option skeleton fl)"
| "skeleton (TypeSpec nm tps ty) = TypeSpec (erase nm) (map_option skeleton tps) (skeleton ty)"
| "skeleton (ValueSpec names ty vals) =
     ValueSpec (map erase names) (map_option skeleton ty) (map skeleton vals)"
| "skeleton (ImportSpec nm path) = ImportSpec (map_option erase nm) path"
| "skeleton (GenDecl tok specs) =
     GenDecl (if tok = CONST_tok then VAR_tok else tok) (map skeleton specs)"
| "skeleton (FuncDecl recv nm ty body) =
     FuncDecl (map_option skeleton recv) (erase nm) (skeleton ty) (map_option skeleton body)"
| "skeleton (File nm decls) = File (erase nm) (map skeleton decls)"
| "skeleton (Other cs) = Other (map skeleton cs)"

definition tame :: "'s visitor \<Rightarrow> bool" where
  "tame f = (\<forall>s n e s'. f s n = Some (e, s') \<longrightarrow> skeleton (apply_edit e n) = skeleton n)"




definition reservedProg :: node where
  "reservedProg =
     File \<lparr>Name = ''main'', Obj = None\<rparr>
       [GenDecl TYPE_tok
          [TypeSpec \<lparr>Name = ''Error'', Obj = Some Typ\<rparr> None
             (StructType (Some (FieldList
                [Field [\<lparr>Name = ''Code'', Obj = Some Var\<rparr>]
                   (Some (Ident \<lparr>Name = ''int'', Obj = None\<rparr>)) None])))],
        FuncDecl
          (Some (FieldList
             [Field [\<lparr>Name = ''e'', Obj = Some Var\<rparr>]
                (Some (Ident \<lparr>Name = ''Error'', Obj = Some Typ\<rparr>)) None]))
          \<lparr>Name = ''String'', Obj = None\<rparr>
          (Other [FieldList [],
                  FieldList [Field [] (Some (Ident \<lparr>Name = ''string'', Obj = None\<rparr>)) None]])
          (Some (Other [Other [BasicLit [CHR 0x22, CHR ''x'', CHR 0x22]]])),
        FuncDecl None \<lparr>Name = ''main'', Obj = Some Fun\<rparr> (Other [FieldList []]) (Some (Other []))]"


definition chainProg :: node where
  "chainProg =
     File \<lparr>Name = ''main'', Obj = None\<rparr>
       [GenDecl TYPE_tok
          [TypeSpec \<lparr>Name = ''A'', Obj = Some Typ\<rparr> None (StructType (Some (FieldList [])))],
        GenDecl TYPE_tok
          [TypeSpec \<lparr>Name = ''aOOOOOOOOOOOOOOOOOOO'', Obj = Some Typ\<rparr> None
             (Ident \<lparr>Name = ''int'', Obj = None\<rparr>)],
        GenDecl VAR_tok
          [ValueSpec [\<lparr>Name = ''x'', Obj = Some Var\<rparr>]
             (Some (Ident \<lparr>Name = ''A'', Obj = Some Typ\<rparr>)) []]]"

text \<open>
  Which identifiers a pass may rewrite. \<open>generatedNames\<close>: the names that
  \<^verbatim>\<open>generateObfuscatedName(20)\<close> can return. \<open>packageValuesOf\<close>: the names of the package-level
  \<^verbatim>\<open>var\<close> and \<^verbatim>\<open>const\<close> declarations (\<^verbatim>\<open>obfuscateConsts\<close> turns the latter into the former
  before \<^verbatim>\<open>obfuscateVariables\<close> collects them). \<open>rewritable ob G f\<close>, for the state \<open>(ob, G)\<close>
  that the collection passes leave on the file \<open>f\<close>: the names recorded as declared types,
  functions and methods, the names of the package-level values, and the generated names.
\<close>

definition generatedNames :: "string set" where
  "generatedNames = {x. \<exists>g g'. generateObfuscatedName 20 g = Some (x, g')}"





fun mask :: "(ident \<Rightarrow> ident) \<Rightarrow> node \<Rightarrow> node" where
  "mask h (Ident i) = Ident (h i)"
| "mask h (BasicLit v) = BasicLit v"
| "mask h (SelectorExpr x sel) = SelectorExpr (mask h x) (h sel)"
| "mask h (CallExpr fn args) = CallExpr (mask h fn) (map (mask h) args)"
| "mask h (Field names ty tag) =
     Field (map h names) (map_option (mask h) ty) (map_option (mask h) tag)"
| "mask h (FieldList fs) = FieldList (map (mask h) fs)"
| "mask h (StructType fl) = StructType (map_option (mask h) fl)"
| "mask h (TypeSpec nm tps ty) = TypeSpec (h nm) (map_option (mask h) tps) (mask h ty)"
| "mask h (ValueSpec names ty vals) =
     ValueSpec (map h names) (map_option (mask h) ty) (map (mask h) vals)"
| "mask h (ImportSpec nm path) = ImportSpec (map_option h nm) path"
| "mask h (GenDecl tok specs) =
     GenDecl (if tok = CONST_tok then VAR_tok else tok) (map (mask h) specs)"
| "mask h (FuncDecl recv nm ty body) =
     FuncDecl (map_option (mask h) recv) (h nm) (mask h ty) (map_option (mask h) body)"
| "mask h (File nm decls) = File (h nm) (map (mask h) decls)"
| "mask h (Other cs) = Other (map (mask h) cs)"


text \<open>
  The replacements held by the maps are generated names; the names that the maps and the
  sets of the obfuscator hold are in \<open>M\<close>.
\<close>

definition generated :: "globals \<Rightarrow> bool" where
  "generated G =
     (snd ` set (nameMap G) \<subseteq> generatedNames \<and>
      snd ` set (structTypeMapping G) \<subseteq> generatedNames \<and>
      snd ` set (typeAliasMapping G) \<subseteq> generatedNames)"



subsection \<open>UTF-8 decoding\<close>

text \<open>
  \<^verbatim>\<open>utf8.DecodeRuneInString\<close>, which is also what \<^verbatim>\<open>for _, r := range s\<close> does at each
  position: the code point at the start of the string and the number of bytes it takes.
  A byte that starts no well-formed encoding (a stray continuation byte, an overlong or
  truncated sequence, a surrogate, a value above U+10FFFF) yields U+FFFD with width 1.
\<close>

definition decodeRune :: "string \<Rightarrow> int \<times> nat" where
  "decodeRune s =
     (case s of
        [] \<Rightarrow> (0xFFFD, 0)
      | c0 # rest \<Rightarrow>
          (let b0 = of_char c0 :: int in
           if b0 < 0x80 then (b0, 1)
           else if b0 < 0xC2 \<or> 0xF4 < b0 then (0xFFFD, 1)
           else
             (let sz = (if b0 < 0xE0 then 2 else if b0 < 0xF0 then 3 else (4::nat));
                  lo = (if b0 = 0xE0 then 0xA0 else if b0 = 0xF0 then 0x90 else (0x80::int));
                  hi = (if b0 = 0xED then 0x9F else if b0 = 0xF4 then 0x8F else (0xBF::int))
              in if length s < sz then (0xFFFD, 1)
                 else
                   (let b1 = of_char (s ! 1) :: int in
                    if b1 < lo \<or> hi < b1 then (0xFFFD, 1)
                    else if sz = 2 then ((b0 - 0xC0) * 64 + (b1 - 0x80), 2)
                    else
                      (let b2 = of_char (s ! 2) :: int in
                       if b2 < 0x80 \<or> 0xBF < b2 then (0xFFFD, 1)
                       else if sz = 3 then
                         ((b0 - 0xE0) * 4096 + (b1 - 0x80) * 64 + (b2 - 0x80), 3)
                       else
                         (let b3 = of_char (s ! 3) :: int in
                          if b3 < 0x80 \<or> 0xBF < b3 then (0xFFFD, 1)
                          else
                            ((b0 - 0xF0) * 262144 + (b1 - 0x80) * 4096 + (b2 - 0x80) * 64 +
                               (b3 - 0x80), 4)))))))"

text \<open>The runes that \<^verbatim>\<open>range s\<close> yields, in order.\<close>

fun runes :: "string \<Rightarrow> int list" where
  "runes [] = []"
| "runes (c # cs) = fst (decodeRune (c # cs)) # runes (drop (snd (decodeRune (c # cs)) - 1) cs)"

text \<open>\<^verbatim>\<open>utf8.ValidString\<close>: no position decodes to the error rune of width 1.\<close>

fun ValidString :: "string \<Rightarrow> bool" where
  "ValidString [] = True"
| "ValidString (c # cs) =
     (decodeRune (c # cs) \<noteq> (0xFFFD, 1) \<and> ValidString (drop (snd (decodeRune (c # cs)) - 1) cs))"

text \<open>\<^verbatim>\<open>utf8.ValidRune\<close>.\<close>

definition ValidRune :: "int \<Rightarrow> bool" where
  "ValidRune r = ((0 \<le> r \<and> r < 0xD800) \<or> (0xDFFF < r \<and> r \<le> 0x10FFFF))"

subsection \<open>\<^verbatim>\<open>strconv.Unquote\<close> of a double-quoted literal\<close>

text \<open>
  The quoted-string sweep passes to \<^verbatim>\<open>strconv.Unquote\<close> only text that starts with a double
  quote, so only that form is modelled. \<open>UnquoteChar\<close> is \<^verbatim>\<open>strconv.UnquoteChar(s, '"')\<close>:
  the value of the first character or escape sequence, whether it is to be appended as a
  rune or as a byte, and the rest; \<open>None\<close> is \<^verbatim>\<open>ErrSyntax\<close>.
\<close>

definition unhex :: "char \<Rightarrow> int option" where
  "unhex c =
     (let b = of_char c :: int in
      if 0x30 \<le> b \<and> b \<le> 0x39 then Some (b - 0x30)
      else if 0x61 \<le> b \<and> b \<le> 0x66 then Some (b - 0x61 + 10)
      else if 0x41 \<le> b \<and> b \<le> 0x46 then Some (b - 0x41 + 10)
      else None)"

fun hexValue :: "int \<Rightarrow> string \<Rightarrow> int option" where
  "hexValue v [] = Some v"
| "hexValue v (c # cs) = (case unhex c of None \<Rightarrow> None | Some x \<Rightarrow> hexValue (v * 16 + x) cs)"

fun octValue :: "int \<Rightarrow> string \<Rightarrow> int option" where
  "octValue v [] = Some v"
| "octValue v (c # cs) =
     (let x = of_char c - 0x30 :: int in
      if x < 0 \<or> 7 < x then None else octValue (v * 8 + x) cs)"

definition UnquoteChar :: "string \<Rightarrow> (int \<times> bool \<times> string) option" where
  "UnquoteChar s =
     (case s of
        [] \<Rightarrow> None
      | c # t \<Rightarrow>
          if c = CHR 0x22 then None
          else if 0x80 \<le> (of_char c :: int) then
            Some (fst (decodeRune s), True, drop (snd (decodeRune s)) s)
          else if c \<noteq> CHR 0x5C then Some (of_char c, False, t)
          else
            (case t of
               [] \<Rightarrow> None
             | e # u \<Rightarrow>
                 if e = CHR ''a'' then Some (7, False, u)
                 else if e = CHR ''b'' then Some (8, False, u)
                 else if e = CHR ''f'' then Some (12, False, u)
                 else if e = CHR ''n'' then Some (10, False, u)
                 else if e = CHR ''r'' then Some (13, False, u)
                 else if e = CHR ''t'' then Some (9, False, u)
                 else if e = CHR ''v'' then Some (11, False, u)
                 else if e = CHR ''x'' \<or> e = CHR ''u'' \<or> e = CHR ''U'' then
                   (let n = (if e = CHR ''x'' then 2 else if e = CHR ''u'' then 4 else (8::nat)) in
                    if length u < n then None
                    else
                      (case hexValue 0 (take n u) of
                         None \<Rightarrow> None
                       | Some v \<Rightarrow>
                           if e = CHR ''x'' then Some (v, False, drop n u)
                           else if \<not> ValidRune v then None
                           else Some (v, True, drop n u)))
                 else if 0x30 \<le> (of_char e :: int) \<and> (of_char e :: int) \<le> 0x37 then
                   (if length u < 2 then None
                    else
                      (case octValue (of_char e - 0x30) (take 2 u) of
                         None \<Rightarrow> None
                       | Some v \<Rightarrow> if 255 < v then None else Some (v, False, drop 2 u)))
                 else if e = CHR 0x5C then Some (0x5C, False, u)
                 else if e = CHR 0x22 then Some (0x22, False, u)
                 else None))"

text \<open>
  The loop of \<^verbatim>\<open>unquote\<close>: characters up to the closing quote, each appended as a byte
  (below \<^verbatim>\<open>utf8.RuneSelf\<close>, or a \<^verbatim>\<open>\x\<close> or octal escape) or as an encoded rune. The result is
  the buffer and the text from the closing quote on. The fuel is the length of the text:
  every step consumes at least one byte.
\<close>

fun unquoteLoop :: "nat \<Rightarrow> string \<Rightarrow> string \<Rightarrow> (string \<times> string) option" where
  "unquoteLoop 0 buf s = Some (buf, s)"
| "unquoteLoop (Suc fuel) buf s =
     (case s of
        [] \<Rightarrow> Some (buf, s)
      | c # t \<Rightarrow>
          if c = CHR 0x22 then Some (buf, s)
          else
            (case UnquoteChar s of
               None \<Rightarrow> None
             | Some (r, multibyte, rem) \<Rightarrow>
                 if c = CHR 0x0A then None
                 else if r < 0x80 \<or> \<not> multibyte then unquoteLoop fuel (buf @ [char_of r]) rem
                 else unquoteLoop fuel (buf @ encodeRune r) rem))"

definition Unquote :: "string \<Rightarrow> string option" where
  "Unquote s =
     (if length s < 2 \<or> hd s \<noteq> CHR 0x22 then None
      else
        (let body = takeWhile (\<lambda>c. c \<noteq> CHR 0x22) (tl s);
             rest = dropWhile (\<lambda>c. c \<noteq> CHR 0x22) (tl s)
         in if rest = [] then None
            else if CHR 0x5C \<notin> set body \<and> CHR 0x0A \<notin> set body \<and> ValidString body then
              (if tl rest = [] then Some body else None)
            else
              (case unquoteLoop (length s) [] (tl s) of
                 None \<Rightarrow> None
               | Some (buf, rem) \<Rightarrow> if rem = [CHR 0x22] then Some buf else None)))"

subsection \<open>String obfuscation\<close>

text \<open>
  The text that \<^verbatim>\<open>obfuscateStringLiteral\<close> and \<^verbatim>\<open>obfuscateFormatString\<close> print is a
  concatenation of terms. A term is kept in structured form (\<open>sexpr\<close>); \<open>render_sexpr\<close> is
  the text \<^verbatim>\<open>fmt.Sprintf\<close> and \<^verbatim>\<open>strings.Join\<close> print for it, and \<open>eval_sexpr\<close> its value as
  a Go expression: \<^verbatim>\<open>string(n)\<close> of an integer constant is the UTF-8 encoding of the code
  point \<open>n\<close>, a quoted literal is read as \<^verbatim>\<open>strconv.Unquote\<close> reads it, \<^verbatim>\<open>+\<close> concatenates.
  \<open>None\<close>: the text is not a valid expression.
  \<^item> \<open>ConvDec r\<close>: \<^verbatim>\<open>string(%d)\<close>;
  \<^item> \<open>ConvHex r\<close>: \<^verbatim>\<open>string(0x%x)\<close>;
  \<^item> \<open>ConvAdd a b\<close>: \<^verbatim>\<open>string(%d+%d)\<close>;
  \<^item> \<open>Quoted s\<close>: \<^verbatim>\<open>"%c"\<close>, \<^verbatim>\<open>"%s"\<close> and the empty literal: \<open>s\<close> between double quotes;
  \<^item> \<open>Concat ps\<close>: \<^verbatim>\<open>"(" + strings.Join(parts, "+") + ")"\<close>.
\<close>

datatype sexpr =
    ConvDec int
  | ConvHex int
  | ConvAdd int int
  | Quoted string
  | Concat "sexpr list"

fun Join :: "string list \<Rightarrow> string \<Rightarrow> string" where
  "Join [] sep = []"
| "Join [x] sep = x"
| "Join (x # y # ys) sep = x @ sep @ Join (y # ys) sep"

fun render_sexpr :: "sexpr \<Rightarrow> string" where
  "render_sexpr (ConvDec r) = ''string('' @ fmt_d r @ '')''"
| "render_sexpr (ConvHex r) = ''string(0x'' @ fmt_x r @ '')''"
| "render_sexpr (ConvAdd a b) = ''string('' @ fmt_d a @ ''+'' @ fmt_d b @ '')''"
| "render_sexpr (Quoted s) = CHR 0x22 # s @ [CHR 0x22]"
| "render_sexpr (Concat ps) = ''('' @ Join (map render_sexpr ps) ''+'' @ '')''"

fun concat_options :: "string option list \<Rightarrow> string option" where
  "concat_options [] = Some []"
| "concat_options (None # xs) = None"
| "concat_options (Some x # xs) = map_option ((@) x) (concat_options xs)"

fun eval_sexpr :: "sexpr \<Rightarrow> string option" where
  "eval_sexpr (ConvDec r) = Some (encodeRune r)"
| "eval_sexpr (ConvHex r) = (if r < 0 then None else Some (encodeRune r))"
| "eval_sexpr (ConvAdd a b) = Some (encodeRune (a + b))"
| "eval_sexpr (Quoted s) = Unquote (CHR 0x22 # s @ [CHR 0x22])"
| "eval_sexpr (Concat ps) = (if ps = [] then None else concat_options (map eval_sexpr ps))"

text \<open>The body of the loop of \<^verbatim>\<open>obfuscateStringLiteral\<close> for one rune, and the loop.\<close>

definition encodeChar :: "int \<Rightarrow> rng \<Rightarrow> sexpr \<times> rng" where
  "encodeChar r g =
     (let (c, g1) = Intn 4 g in
      if c = 0 then (ConvDec r, g1)
      else if c = 1 then (ConvHex r, g1)
      else if c = 2 then
        (let (k, g2) = Intn 50 g1; offset = int k + 1 in (ConvAdd (r - offset) offset, g2))
      else if r = 0x22 \<or> r = 0x5C \<or> 127 < r then (ConvDec r, g1)
      else if 32 \<le> r \<and> r < 127 then (Quoted [char_of r], g1)
      else (ConvDec r, g1))"

fun encodeRunes :: "int list \<Rightarrow> rng \<Rightarrow> sexpr list \<times> rng" where
  "encodeRunes [] g = ([], g)"
| "encodeRunes (r # rs) g =
     (let (p, g1) = encodeChar r g; (ps, g2) = encodeRunes rs g1 in (p # ps, g2))"

definition obfuscateStringLiteral_expr :: "string \<Rightarrow> rng \<Rightarrow> sexpr \<times> rng" where
  "obfuscateStringLiteral_expr s g =
     (if s = [] then (Quoted [], g)
      else (let (parts, g') = encodeRunes (runes s) g in (Concat parts, g')))"

definition obfuscateStringLiteral :: "string \<Rightarrow> rng \<Rightarrow> string \<times> rng" where
  "obfuscateStringLiteral s g =
     (let (e, g') = obfuscateStringLiteral_expr s g in (render_sexpr e, g'))"

subsection \<open>Import paths\<close>






subsection \<open>Regular expressions\<close>

text \<open>
  The patterns of the program use character classes, concatenation, alternation and the
  greedy operators \<^verbatim>\<open>*\<close>, \<^verbatim>\<open>+\<close>, \<^verbatim>\<open>?\<close>. Go's \<^verbatim>\<open>regexp\<close> returns the match a backtracking
  matcher finds first (leftmost, then by the preference order of the operators).
  \<open>matches r s\<close> lists, in that preference order, what is left of \<open>s\<close> after each way of
  matching \<open>r\<close> at the start of \<open>s\<close>. Matching is by bytes: every class of the program
  either lists ASCII characters or excludes ASCII characters, so a multi-byte character is
  matched by a negated class byte after byte under \<^verbatim>\<open>*\<close> or \<^verbatim>\<open>+\<close> with the same extent. No
  pattern of the program matches the empty string, and an empty match counts as none.
\<close>

datatype re =
    Cls "char list"
  | NCls "char list"
  | Seq re re
  | Alt re re
  | Star re
  | Opt re

definition Plus :: "re \<Rightarrow> re" where
  "Plus r = Seq r (Star r)"

fun matches :: "re \<Rightarrow> string \<Rightarrow> string list" where
  "matches (Cls cs) s = (case s of [] \<Rightarrow> [] | c # t \<Rightarrow> if c \<in> set cs then [t] else [])"
| "matches (NCls cs) s = (case s of [] \<Rightarrow> [] | c # t \<Rightarrow> if c \<notin> set cs then [t] else [])"
| "matches (Seq a b) s = concat (map (matches b) (matches a s))"
| "matches (Alt a b) s = matches a s @ matches b s"
| "matches (Star a) s =
     concat (map (\<lambda>t. if length t < length s then matches (Star a) t else []) (matches a s)) @ [s]"
| "matches (Opt a) s = matches a s @ [s]"

text \<open>The length of the preferred non-empty match at the start of \<open>s\<close>.\<close>

definition firstMatch :: "re \<Rightarrow> string \<Rightarrow> nat option" where
  "firstMatch r s =
     (case matches r s of
        [] \<Rightarrow> None
      | t # ts \<Rightarrow> if length t < length s then Some (length s - length t) else None)"

text \<open>\<^verbatim>\<open>MatchString\<close> for a pattern written between \<^verbatim>\<open>^\<close> and \<^verbatim>\<open>$\<close>: some way of matching uses up the text.\<close>

definition matchWhole :: "re \<Rightarrow> string \<Rightarrow> bool" where
  "matchWhole r s = ([] \<in> set (matches r s))"

text \<open>
  The successive non-overlapping matches of a pattern in a text, leftmost first: the text
  cut into the matches (\<open>Hit\<close>) and the bytes between them (\<open>Txt\<close>).
\<close>

datatype seg = Txt string | Hit string

fun segments :: "re \<Rightarrow> string \<Rightarrow> seg list" where
  "segments r [] = []"
| "segments r (c # t) =
     (case firstMatch r (c # t) of
        None \<Rightarrow> Txt [c] # segments r t
      | Some n \<Rightarrow> Hit (take n (c # t)) # segments r (drop (n - 1) t))"

fun seg_text :: "seg \<Rightarrow> string" where
  "seg_text (Txt t) = t"
| "seg_text (Hit m) = m"

text \<open>\<^verbatim>\<open>FindAllStringIndex(s, -1)\<close>: the start and end offsets of the matches.\<close>

fun seg_index :: "nat \<Rightarrow> seg list \<Rightarrow> (nat \<times> nat) list" where
  "seg_index pos [] = []"
| "seg_index pos (Txt t # segs) = seg_index (pos + length t) segs"
| "seg_index pos (Hit m # segs) = (pos, pos + length m) # seg_index (pos + length m) segs"

definition FindAllStringIndex :: "re \<Rightarrow> string \<Rightarrow> (nat \<times> nat) list" where
  "FindAllStringIndex r s = seg_index 0 (segments r s)"

text \<open>\<^verbatim>\<open>FindString\<close>: the first match, or the empty string.\<close>

fun first_hit :: "seg list \<Rightarrow> string" where
  "first_hit [] = []"
| "first_hit (Txt t # segs) = first_hit segs"
| "first_hit (Hit m # segs) = m"

definition FindString :: "re \<Rightarrow> string \<Rightarrow> string" where
  "FindString r s = first_hit (segments r s)"

text \<open>
  \<^verbatim>\<open>ReplaceAllStringFunc(src, repl)\<close> with a callback that reads and writes the state \<open>'s\<close>
  (the random stream): the callback runs on the matches from left to right.
\<close>

fun replaceSegs :: "(string \<Rightarrow> 's \<Rightarrow> string \<times> 's) \<Rightarrow> seg list \<Rightarrow> 's \<Rightarrow> string \<times> 's" where
  "replaceSegs f [] st = ([], st)"
| "replaceSegs f (Txt t # segs) st = (let (out, st') = replaceSegs f segs st in (t @ out, st'))"
| "replaceSegs f (Hit m # segs) st =
     (let (x, st1) = f m st; (out, st2) = replaceSegs f segs st1 in (x @ out, st2))"

definition ReplaceAllStringFunc ::
  "re \<Rightarrow> string \<Rightarrow> (string \<Rightarrow> 's \<Rightarrow> string \<times> 's) \<Rightarrow> 's \<Rightarrow> string \<times> 's" where
  "ReplaceAllStringFunc r src repl st = replaceSegs repl (segments r src) st"

text \<open>The classes \<^verbatim>\<open>\d\<close> and \<^verbatim>\<open>\s\<close> (in Go: tab, newline, form feed, carriage return, space).\<close>

definition digit_class :: "char list" where
  "digit_class = ''0123456789''"

definition space_class :: "char list" where
  "space_class = [CHR 0x09, CHR 0x0A, CHR 0x0C, CHR 0x0D, CHR '' '']"

subsection \<open>Functions of \<^verbatim>\<open>strings\<close>\<close>

definition HasPrefix :: "string \<Rightarrow> string \<Rightarrow> bool" where
  "HasPrefix s p = (take (length p) s = p)"

fun Contains :: "string \<Rightarrow> string \<Rightarrow> bool" where
  "Contains [] sub = (sub = [])"
| "Contains (c # t) sub = (HasPrefix (c # t) sub \<or> Contains t sub)"

text \<open>
  \<^verbatim>\<open>strings.TrimSpace\<close> removes the leading and trailing characters with Unicode's White
  Space property; \<open>whiteSpace\<close> lists them, and a text starts (ends) with such a character
  exactly if it starts (ends) with the character's UTF-8 encoding.
\<close>

definition whiteSpace :: "int list" where
  "whiteSpace =
     [0x09, 0x0A, 0x0B, 0x0C, 0x0D, 0x20, 0x85, 0xA0, 0x1680,
      0x2000, 0x2001, 0x2002, 0x2003, 0x2004, 0x2005, 0x2006, 0x2007, 0x2008, 0x2009, 0x200A,
      0x2028, 0x2029, 0x202F, 0x205F, 0x3000]"

fun trimLeftAny :: "string list \<Rightarrow> string \<Rightarrow> string" where
  "trimLeftAny encs [] = []"
| "trimLeftAny encs (c # t) =
     (case find (\<lambda>e. e \<noteq> [] \<and> HasPrefix (c # t) e) encs of
        None \<Rightarrow> c # t
      | Some e \<Rightarrow> trimLeftAny encs (drop (length e - 1) t))"

definition TrimSpace :: "string \<Rightarrow> string" where
  "TrimSpace s =
     rev (trimLeftAny (map (rev \<circ> encodeRune) whiteSpace)
            (rev (trimLeftAny (map encodeRune whiteSpace) s)))"

subsection \<open>The format-string encoder\<close>

text \<open>\<^verbatim>\<open>%[-+#0 ]*[0-9]*(\.[0-9]+)?[dsvftxXboqpeEgGUcTw%]\<close>\<close>

definition formatRe :: re where
  "formatRe =
     Seq (Cls ''%'')
       (Seq (Star (Cls ''-+#0 ''))
          (Seq (Star (Cls digit_class))
             (Seq (Opt (Seq (Cls ''.'') (Plus (Cls digit_class))))
                (Cls ''dsvftxXboqpeEgGUcTw%''))))"

text \<open>\<^verbatim>\<open>s[a:b]\<close> for \<open>a \<le> b \<le> len(s)\<close>, as every slice of the program is.\<close>

definition slice :: "string \<Rightarrow> nat \<Rightarrow> nat \<Rightarrow> string" where
  "slice s a b = take (b - a) (drop a s)"

text \<open>
  The loop of \<^verbatim>\<open>obfuscateFormatString\<close> over the matches: the text before a specifier goes
  through the string encoder, the specifier is quoted as it is.
\<close>

fun formatParts ::
  "string \<Rightarrow> (nat \<times> nat) list \<Rightarrow> nat \<Rightarrow> sexpr list \<Rightarrow> rng \<Rightarrow> sexpr list \<times> nat \<times> rng" where
  "formatParts s [] lastEnd parts g = (parts, lastEnd, g)"
| "formatParts s ((start, end) # ms) lastEnd parts g =
     (let (parts1, g1) =
            (if lastEnd < start then
               (let textPart = slice s lastEnd start in
                if 0 < length textPart then
                  (let (e, g') = obfuscateStringLiteral_expr textPart g in (parts @ [e], g'))
                else (parts, g))
             else (parts, g));
          formatSpec = slice s start end
      in formatParts s ms end (parts1 @ [Quoted formatSpec]) g1)"

definition obfuscateFormatString_expr :: "string \<Rightarrow> rng \<Rightarrow> sexpr \<times> rng" where
  "obfuscateFormatString_expr s g =
     (let ms = FindAllStringIndex formatRe s in
      if length ms = 0 then obfuscateStringLiteral_expr s g
      else
        (let (parts, lastEnd, g1) = formatParts s ms 0 [] g;
             (parts', g2) =
               (if lastEnd < length s then
                  (let textPart = drop lastEnd s in
                   if 0 < length textPart then
                     (let (e, g') = obfuscateStringLiteral_expr textPart g1 in (parts @ [e], g'))
                   else (parts, g1))
                else (parts, g1))
         in (Concat parts', g2)))"

definition obfuscateFormatString :: "string \<Rightarrow> rng \<Rightarrow> string \<times> rng" where
  "obfuscateFormatString s g =
     (let (e, g') = obfuscateFormatString_expr s g in (render_sexpr e, g'))"

subsection \<open>The sweeps over the printed text\<close>

text \<open>
  The counters of the sweeps are only printed and are left out. \<^verbatim>\<open>strings.Split(content,
  "\n")\<close> and \<^verbatim>\<open>strings.Join(lines, "\n")\<close> are \<open>Split\<close> and \<open>Join\<close>.
\<close>

text \<open>\<^verbatim>\<open>^\s*[^\s]+\s+[^\s]+\s*=\s*"[^"]*"\s*$\<close>\<close>

definition typeAliasPattern :: re where
  "typeAliasPattern =
     Seq (Star (Cls space_class))
       (Seq (Plus (NCls space_class))
          (Seq (Plus (Cls space_class))
             (Seq (Plus (NCls space_class))
                (Seq (Star (Cls space_class))
                   (Seq (Cls ''='')
                      (Seq (Star (Cls space_class))
                         (Seq (Cls [CHR 0x22])
                            (Seq (Star (NCls [CHR 0x22]))
                               (Seq (Cls [CHR 0x22]) (Star (Cls space_class)))))))))))"

text \<open>\<^verbatim>\<open>"([^"\\]|\\.)*"\<close>; the dot is any character but a newline.\<close>

definition quotedRe :: re where
  "quotedRe =
     Seq (Cls [CHR 0x22])
       (Seq (Star (Alt (NCls [CHR 0x22, CHR 0x5C]) (Seq (Cls [CHR 0x5C]) (NCls [CHR 0x0A]))))
          (Cls [CHR 0x22]))"

text \<open>The callback of the quoted-string sweep.\<close>

definition stringsCallback :: "bool \<Rightarrow> string \<Rightarrow> rng \<Rightarrow> string \<times> rng" where
  "stringsCallback isVarAssignment m g =
     (case Unquote m of
        None \<Rightarrow> (m, g)
      | Some s \<Rightarrow>
          if length s < 3 then (m, g)
          else if Contains s [CHR 0x5C] then (m, g)
          else if Contains s ''://'' \<and> \<not> isVarAssignment then (m, g)
          else if Contains s ''%'' then obfuscateFormatString s g
          else obfuscateStringLiteral s g)"

definition stringsSkipLine :: "string \<Rightarrow> bool" where
  "stringsSkipLine line =
     (let trimmed = TrimSpace line in
      HasPrefix trimmed ''const '' \<or>
      HasPrefix trimmed ''case '' \<or>
      HasPrefix trimmed ''Set('' \<or>
      HasPrefix trimmed ''.Set('' \<or>
      Contains line ''.Set('' \<or>
      Contains line (CHR 0x60 # ''json:'') \<or>
      Contains line (CHR 0x60 # ''xml:'') \<or>
      Contains line (CHR 0x60 # ''yaml:'') \<or>
      Contains line ''Flag'' \<or>
      Contains line ''flag.'' \<or>
      Contains line ''launcher.'')"

definition isVarAssignment :: "string \<Rightarrow> bool" where
  "isVarAssignment line =
     (Contains line ''='' \<and> \<not> Contains line ''=='' \<and> \<not> Contains line ''!='' \<and>
      \<not> Contains line ''('')"

text \<open>The loop over the lines; the flag is \<^verbatim>\<open>inImportBlock\<close>.\<close>

fun stringsLines :: "string list \<Rightarrow> bool \<Rightarrow> rng \<Rightarrow> string list \<times> rng" where
  "stringsLines [] inImportBlock g = ([], g)"
| "stringsLines (line # rest) inImportBlock g =
     (let trimmed = TrimSpace line in
      if HasPrefix trimmed ''import ('' then
        (let (out, g') = stringsLines rest True g in (line # out, g'))
      else if inImportBlock \<and> trimmed = '')'' then
        (let (out, g') = stringsLines rest False g in (line # out, g'))
      else if inImportBlock \<or> HasPrefix trimmed ''import '' then
        (let (out, g') = stringsLines rest inImportBlock g in (line # out, g'))
      else if stringsSkipLine line then
        (let (out, g') = stringsLines rest inImportBlock g in (line # out, g'))
      else if matchWhole typeAliasPattern line then
        (let (out, g') = stringsLines rest inImportBlock g in (line # out, g'))
      else
        (let (line', g1) =
               ReplaceAllStringFunc quotedRe line (stringsCallback (isVarAssignment line)) g;
             (out, g2) = stringsLines rest inImportBlock g1
         in (line' # out, g2)))"

definition obfuscateStringsInText :: "config \<Rightarrow> string \<Rightarrow> rng \<Rightarrow> string \<times> rng" where
  "obfuscateStringsInText cfg content g =
     (if noStrings cfg then (content, g)
      else
        (let (lines, g') = stringsLines (Split content (CHR 0x0A)) False g
         in (Join lines [CHR 0x0A], g')))"

text \<open>\<^verbatim>\<open>([\s(=:,])(\d+)([\s),;\]])\<close> and \<^verbatim>\<open>\d+\<close>\<close>

definition integerRe :: re where
  "integerRe =
     Seq (Cls (space_class @ ''(=:,''))
       (Seq (Plus (Cls digit_class)) (Cls (space_class @ ''),;]'')))"

definition numRe :: re where
  "numRe = Plus (Cls digit_class)"

text \<open>
  \<^verbatim>\<open>strconv.ParseInt(s, 10, 64)\<close> on what \<^verbatim>\<open>\d+\<close> found: a run of decimal digits, or the
  empty string. \<open>None\<close> is an error: no digit, or a value above the largest int64.
\<close>

fun decimalValue :: "int \<Rightarrow> string \<Rightarrow> int option" where
  "decimalValue v [] = Some v"
| "decimalValue v (c # cs) =
     (if c \<in> set digit_class then decimalValue (v * 10 + (of_char c - 48)) cs else None)"

definition ParseInt :: "string \<Rightarrow> int64 option" where
  "ParseInt s =
     (if s = [] then None
      else
        (case decimalValue 0 s of
           None \<Rightarrow> None
         | Some v \<Rightarrow> if 2 ^ 63 - 1 < v then None else Some (word_of_int v)))"

text \<open>The callback of the bare-integer sweep.\<close>

definition integersCallback :: "string \<Rightarrow> rng \<Rightarrow> string \<times> rng" where
  "integersCallback m g =
     (let numStr = FindString numRe m in
      case ParseInt numStr of
        None \<Rightarrow> (m, g)
      | Some n \<Rightarrow>
          if sint n \<le> 10 \<or> 100000 < sint n then (m, g)
          else
            (let prefix = slice m 0 1;
                 suffix = drop (length m - 1) m;
                 (x, g') = obfuscateInteger n g
             in (prefix @ x @ suffix, g')))"

definition integersSkipLine :: "string \<Rightarrow> bool" where
  "integersSkipLine line =
     (Contains line ''string('' \<or>
      Contains line [CHR 0x22] \<or>
      Contains line [CHR 0x60] \<or>
      Contains line [CHR 0x27])"

definition integersSkipDecl :: "string \<Rightarrow> bool" where
  "integersSkipDecl line =
     (let trimmed = TrimSpace line in
      HasPrefix trimmed ''func '' \<or>
      Contains line ''func ('' \<or>
      HasPrefix trimmed ''import'' \<or>
      HasPrefix trimmed ''package'' \<or>
      HasPrefix trimmed ''type '' \<or>
      HasPrefix trimmed ''const '' \<or>
      HasPrefix trimmed ''var '')"

fun integersLines :: "string list \<Rightarrow> rng \<Rightarrow> string list \<times> rng" where
  "integersLines [] g = ([], g)"
| "integersLines (line # rest) g =
     (if integersSkipLine line then
        (let (out, g') = integersLines rest g in (line # out, g'))
      else if integersSkipDecl line then
        (let (out, g') = integersLines rest g in (line # out, g'))
      else
        (let (line', g1) = ReplaceAllStringFunc integerRe line integersCallback g;
             (out, g2) = integersLines rest g1
         in (line' # out, g2)))"

definition obfuscateIntegersInText :: "config \<Rightarrow> string \<Rightarrow> rng \<Rightarrow> string \<times> rng" where
  "obfuscateIntegersInText cfg content g =
     (if noInts cfg then (content, g)
      else
        (let (lines, g') = integersLines (Split content (CHR 0x0A)) g
         in (Join lines [CHR 0x0A], g')))"

subsection \<open>Notions used in the statements about the sweeps\<close>

text \<open>A pattern built from classes within \<open>A\<close> consumes only characters of \<open>A\<close>.\<close>

fun consumes :: "char set \<Rightarrow> re \<Rightarrow> bool" where
  "consumes A (Cls cs) = (set cs \<subseteq> A)"
| "consumes A (NCls cs) = False"
| "consumes A (Seq a b) = (consumes A a \<and> consumes A b)"
| "consumes A (Alt a b) = (consumes A a \<and> consumes A b)"
| "consumes A (Star a) = consumes A a"
| "consumes A (Opt a) = consumes A a"

text \<open>
  A separator-bounded integer token: a separator \<open>p\<close>, a non-empty run of decimal digits
  \<open>ds\<close>, a separator \<open>q\<close>. Its value is the number that the digits denote in base ten.
\<close>

definition integerToken :: "string \<Rightarrow> char \<Rightarrow> string \<Rightarrow> char \<Rightarrow> bool" where
  "integerToken m p ds q =
     (m = p # ds @ [q] \<and> p \<in> set (space_class @ ''(=:,'') \<and> ds \<noteq> [] \<and>
      set ds \<subseteq> set digit_class \<and> q \<in> set (space_class @ ''),;]''))"

definition tokenValue :: "string \<Rightarrow> int" where
  "tokenValue ds = foldl (\<lambda>v c. v * 10 + (of_char c - 48)) 0 ds"

section \<open>Properties\<close>

subsection \<open>The string encoder\<close>

text \<open>
  Every term the encoder prints for a rune evaluates to the UTF-8 encoding of that rune, so
  the printed expression evaluates to the encoding of the runes that \<^verbatim>\<open>range s\<close> yields.
\<close>

lemma char_of_eq_iff_small:
  "0 \<le> r \<Longrightarrow> r < 256 \<Longrightarrow> (char_of (r::int) = c) = (r = of_char c)"
  by (metis char_of_eq_iff of_char_of mod_pos_pos_trivial of_char_mod_256)

lemma Unquote_single:
  assumes "32 \<le> r" "r < 127" "r \<noteq> 0x22" "r \<noteq> 0x5C"
  shows "Unquote [CHR 0x22, char_of (r::int), CHR 0x22] = Some [char_of r]"
proof -
  have a: "char_of r \<noteq> CHR 0x22" "char_of r \<noteq> CHR 0x5C" "char_of r \<noteq> CHR 0x0A"
    using assms by (simp_all add: char_of_eq_iff_small)
  have b: "of_char (char_of r) = r" using assms by simp
  have v: "ValidString [char_of r]" using assms b by (simp add: decodeRune_def)
  show ?thesis using a v by (simp add: Unquote_def)
qed

lemma Unquote_empty: "Unquote [CHR 0x22, CHR 0x22] = Some []"
  by (simp add: Unquote_def)

lemma encodeChar_eval:
  assumes "0 \<le> r"
  shows "eval_sexpr (fst (encodeChar r g)) = Some (encodeRune r)"
proof -
  have q: "32 \<le> r \<Longrightarrow> r < 127 \<Longrightarrow> r \<noteq> 0x22 \<Longrightarrow> r \<noteq> 0x5C \<Longrightarrow>
      eval_sexpr (Quoted [char_of r]) = Some (encodeRune r)"
    using Unquote_single[of r] by (simp add: encodeRune_def)
  show ?thesis
    using assms q by (auto simp add: encodeChar_def Let_def split: prod.splits)
qed

lemma of_char_int_bounds: "0 \<le> (of_char c :: int)" "(of_char c :: int) < 256"
proof -
  have "(of_char c :: int) = int (of_char c)" by (simp add: of_nat_of_char)
  moreover have "(of_char c :: nat) < 256" by simp
  ultimately show "0 \<le> (of_char c :: int)" "(of_char c :: int) < 256" by presburger+
qed

lemma decodeRune_nonneg: "0 \<le> fst (decodeRune s)"
  by (auto simp add: decodeRune_def Let_def of_char_int_bounds split: list.splits)

lemma runes_nonneg: "r \<in> set (runes s) \<Longrightarrow> 0 \<le> r"
  by (induction s arbitrary: r rule: runes.induct) (auto simp add: decodeRune_nonneg)

lemma encodeRunes_eval:
  "\<forall>r \<in> set rs. 0 \<le> r \<Longrightarrow>
     concat_options (map eval_sexpr (fst (encodeRunes rs g))) = Some (string_of_runes rs)"
proof (induction rs arbitrary: g)
  case Nil
  show ?case by (simp add: string_of_runes_def)
next
  case (Cons r rs)
  obtain p g1 where p: "encodeChar r g = (p, g1)" by (cases "encodeChar r g")
  obtain ps g2 where ps: "encodeRunes rs g1 = (ps, g2)" by (cases "encodeRunes rs g1")
  have e: "eval_sexpr p = Some (encodeRune r)"
    using encodeChar_eval[of r g] Cons.prems p by simp
  have r: "concat_options (map eval_sexpr ps) = Some (string_of_runes rs)"
    using Cons.IH[of g1] Cons.prems ps by simp
  show ?case using p ps e r by (simp add: string_of_runes_def)
qed

lemma encodeRunes_length: "length (fst (encodeRunes rs g)) = length rs"
  by (induction rs arbitrary: g) (simp_all add: split_beta Let_def)

lemma runes_Nil_iff: "runes s = [] \<longleftrightarrow> s = []"
  by (cases s) simp_all

lemma obfuscateStringLiteral_eval:
  "eval_sexpr (fst (obfuscateStringLiteral_expr s g)) = Some (string_of_runes (runes s))"
proof (cases "s = []")
  case True
  then show ?thesis
    by (simp add: obfuscateStringLiteral_expr_def Unquote_empty string_of_runes_def)
next
  case False
  have n: "fst (encodeRunes (runes s) g) \<noteq> []"
    using encodeRunes_length[of "runes s" g] False runes_Nil_iff[of s] by auto
  show ?thesis
    using False n encodeRunes_eval[of "runes s" g] runes_nonneg[of _ s]
    by (simp add: obfuscateStringLiteral_expr_def split_beta)
qed

text \<open>
  C1. The expression that \<^verbatim>\<open>obfuscateStringLiteral\<close> prints does not evaluate to its input
  for every string: \<^verbatim>\<open>range\<close> decodes the input as UTF-8 and yields U+FFFD for a byte that
  starts no well-formed encoding, and the encoder prints the code of what \<^verbatim>\<open>range\<close> yields.
  For the three bytes \<^verbatim>\<open>a\<close>, \<^verbatim>\<open>b\<close>, \<^verbatim>\<open>0xFF\<close> (the value of the Go literal \<^verbatim>\<open>"ab\xff"\<close>, which the
  quoted-string sweep passes to the encoder), whatever the random choices are, the
  expression evaluates to the five bytes \<^verbatim>\<open>a\<close>, \<^verbatim>\<open>b\<close>, \<^verbatim>\<open>0xEF\<close>, \<^verbatim>\<open>0xBF\<close>, \<^verbatim>\<open>0xBD\<close>.
\<close>

theorem obfuscateStringLiteral_invalid_utf8: "eval_sexpr (fst (obfuscateStringLiteral_expr [CHR ''a'', CHR ''b'', CHR 0xFF] g)) =
     Some [CHR ''a'', CHR ''b'', CHR 0xEF, CHR 0xBF, CHR 0xBD]"
proof -
  have "string_of_runes (runes [CHR ''a'', CHR ''b'', CHR 0xFF]) =
      [CHR ''a'', CHR ''b'', CHR 0xEF, CHR 0xBF, CHR 0xBD]"
    by code_simp
  then show ?thesis by (simp only: obfuscateStringLiteral_eval)
qed

subsection \<open>Integer obfuscation\<close>

lemma sint_word_of_int64:
  "- (2 ^ 63) \<le> i \<Longrightarrow> i < 2 ^ 63 \<Longrightarrow> sint (word_of_int i :: int64) = i"
  by (simp add: sint_sbintrunc' signed_take_bit_int_eq_self)

lemma sint_bounds64: "- (2 ^ 63) \<le> sint (n::int64)" "sint (n::int64) < 2 ^ 63"
  using sint_ge[of n] sint_lt[of n] by simp_all

lemma sint_small_divisor: "k < 10 \<Longrightarrow> sint (of_nat k + 2 :: int64) = int k + 2"
proof -
  assume k: "k < 10"
  have "(of_nat k + 2 :: int64) = word_of_int (int k + 2)" by simp
  then show ?thesis using k sint_word_of_int64[of "int k + 2"] by simp
qed

lemma sint_small_offset: "k < 1000 \<Longrightarrow> sint (of_nat k + 1 :: int64) = int k + 1"
proof -
  assume k: "k < 1000"
  have "(of_nat k + 1 :: int64) = word_of_int (int k + 1)" by simp
  then show ?thesis using k sint_word_of_int64[of "int k + 1"] by simp
qed

lemma sdiv_cancel: "0 < k \<Longrightarrow> (m * k) sdiv k = (m::int)"
  by (simp add: signed_divide_int_def sgn_mult abs_mult mult_sgn_abs)

lemma sint_mult64:
  assumes "- (2 ^ 63) \<le> sint a * sint b" "sint a * sint b < 2 ^ 63"
  shows "sint (a * b :: int64) = sint a * sint b"
proof -
  have "a * b = word_of_int (sint a * sint b)" by simp
  then show ?thesis using assms sint_word_of_int64 by metis
qed

lemma sint_add64:
  assumes "- (2 ^ 63) \<le> sint a + sint b" "sint a + sint b < 2 ^ 63"
  shows "sint (a + b :: int64) = sint a + sint b"
proof -
  have "a + b = word_of_int (sint a + sint b)" by simp
  then show ?thesis using assms sint_word_of_int64 by metis
qed

lemma sint_diff64:
  assumes "- (2 ^ 63) \<le> sint a - sint b" "sint a - sint b < 2 ^ 63"
  shows "sint (a - b :: int64) = sint a - sint b"
proof -
  have "a - b = word_of_int (sint a - sint b)" by simp
  then show ?thesis using assms sint_word_of_int64 by metis
qed

lemma add_roundtrip:
  assumes "k < 1000" "- (2 ^ 63) \<le> sint n - (int k + 1)"
  shows "const_value (IBin (n - (of_nat k + 1)) OpAdd (of_nat k + 1)) = Some (sint (n::int64))"
proof -
  let ?x = "of_nat k + 1 :: int64"
  have sx: "sint ?x = int k + 1" using assms(1) by (rule sint_small_offset)
  have "sint n - sint ?x < 2 ^ 63" using sint_bounds64(2)[of n] sx by simp
  then have "sint (n - ?x) = sint n - sint ?x" using assms(2) sx sint_diff64[of n ?x] by simp
  then show ?thesis by simp
qed

lemma sub_roundtrip:
  assumes "k < 1000" "sint n + (int k + 1) < 2 ^ 63"
  shows "const_value (IBin (n + (of_nat k + 1)) OpSub (of_nat k + 1)) = Some (sint (n::int64))"
proof -
  let ?x = "of_nat k + 1 :: int64"
  have sx: "sint ?x = int k + 1" using assms(1) by (rule sint_small_offset)
  have "- (2 ^ 63) \<le> sint n + sint ?x" using sint_bounds64(1)[of n] sx by simp
  then have "sint (n + ?x) = sint n + sint ?x" using assms(2) sx sint_add64[of n ?x] by simp
  then show ?thesis by simp
qed

lemma xor_roundtrip: "const_value (IBin (n XOR x) OpXor x) = Some (sint (n::int64))"
proof -
  have "sint (n XOR x) = sint n XOR sint x" by (rule signed_xor_eq)
  then show ?thesis by (simp add: xor.assoc)
qed

lemma quo_roundtrip:
  assumes "k < 10" "- (2 ^ 63) \<le> sint n * (int k + 2)" "sint n * (int k + 2) < 2 ^ 63"
  shows "const_value (IBin (n * (of_nat k + 2)) OpQuo (of_nat k + 2)) = Some (sint (n::int64))"
proof -
  let ?x = "of_nat k + 2 :: int64"
  have sx: "sint ?x = int k + 2" using assms(1) by (rule sint_small_divisor)
  have "sint (n * ?x) = sint n * (int k + 2)" using assms sx sint_mult64[of n ?x] by simp
  then have "sint (n * ?x) sdiv sint ?x = sint n"
    using sx sdiv_cancel[of "int k + 2" "sint n"] by simp
  then show ?thesis using sx by simp
qed

lemma eval_iexpr_exact: "const_value e = Some (sint n) \<Longrightarrow> eval_iexpr e = Some (n::int64)"
  using sint_bounds64[of n] by (simp add: eval_iexpr_def)

lemma obfuscateInteger_text:
  "fst (obfuscateInteger n g) = render_iexpr (fst (obfuscateInteger_expr n g))"
  by (simp add: obfuscateInteger_def split: prod.splits)

lemma const_value_in_range:
  assumes "g 0 mod 4 = 0 \<longrightarrow> - (2 ^ 63) \<le> sint n - (int (g 1 mod 1000) + 1)"
    and "g 0 mod 4 = 1 \<longrightarrow> sint n + (int (g 1 mod 1000) + 1) < 2 ^ 63"
    and "g 0 mod 4 = 3 \<longrightarrow>
           - (2 ^ 63) \<le> sint n * (int (g 1 mod 10) + 2) \<and>
           sint n * (int (g 1 mod 10) + 2) < 2 ^ 63"
  shows "const_value (fst (obfuscateInteger_expr n g)) = Some (sint n)"
proof -
  consider "g 0 mod 4 = 0" | "g 0 mod 4 = 1" | "g 0 mod 4 = 2" | "g 0 mod 4 = 3"
    by linarith
  then show ?thesis
  proof cases
    case 1
    have k: "g 1 mod 1000 < 1000" by simp
    have e: "fst (obfuscateInteger_expr n g) =
        IBin (n - (of_nat (g 1 mod 1000) + 1)) OpAdd (of_nat (g 1 mod 1000) + 1)"
      using 1 by (simp add: obfuscateInteger_expr_def Intn_def Int63n_def Let_def)
    show ?thesis using e add_roundtrip[OF k] assms(1) 1 by simp
  next
    case 2
    have k: "g 1 mod 1000 < 1000" by simp
    have e: "fst (obfuscateInteger_expr n g) =
        IBin (n + (of_nat (g 1 mod 1000) + 1)) OpSub (of_nat (g 1 mod 1000) + 1)"
      using 2 by (simp add: obfuscateInteger_expr_def Intn_def Int63n_def Let_def)
    show ?thesis using e sub_roundtrip[OF k] assms(2) 2 by simp
  next
    case 3
    have e: "fst (obfuscateInteger_expr n g) =
        IBin (n XOR (of_nat (g 1 mod 1000) + 1)) OpXor (of_nat (g 1 mod 1000) + 1)"
      using 3 by (simp add: obfuscateInteger_expr_def Intn_def Int63n_def Let_def)
    show ?thesis unfolding e by (rule xor_roundtrip)
  next
    case 4
    have k: "g 1 mod 10 < 10" by simp
    have e: "fst (obfuscateInteger_expr n g) =
        IBin (n * (of_nat (g 1 mod 10) + 2)) OpQuo (of_nat (g 1 mod 10) + 2)"
      using 4 by (simp add: obfuscateInteger_expr_def Intn_def Int63n_def Let_def)
    show ?thesis using e quo_roundtrip[OF k] assms(3) 4 by simp
  qed
qed

lemma quo_divides:
  assumes "- (2 ^ 63) \<le> sint n * (int (g 1 mod 10) + 2)"
    "sint n * (int (g 1 mod 10) + 2) < 2 ^ 63"
    "fst (obfuscateInteger_expr n g) = IBin a OpQuo b"
  shows "sint b dvd sint a"
proof -
  let ?k = "g 1 mod 10"
  let ?x = "of_nat ?k + 2 :: int64"
  have c: "g 0 mod 4 = 3"
  proof (rule ccontr)
    assume "g 0 mod 4 \<noteq> 3"
    then consider "g 0 mod 4 = 0" | "g 0 mod 4 = 1" | "g 0 mod 4 = 2" by linarith
    then show False using assms(3)
      by cases (simp_all add: obfuscateInteger_expr_def Intn_def Int63n_def Let_def)
  qed
  have e: "fst (obfuscateInteger_expr n g) = IBin (n * ?x) OpQuo ?x"
    using c by (simp add: obfuscateInteger_expr_def Intn_def Int63n_def Let_def)
  have ab: "a = n * ?x" "b = ?x" using e assms(3) by simp_all
  have sx: "sint ?x = int ?k + 2" by (rule sint_small_divisor) simp
  have "sint (n * ?x) = sint n * sint ?x" using assms(1,2) sx sint_mult64[of n ?x] by simp
  then show ?thesis using ab by simp
qed

text \<open>
  C2 (as amended). The text that \<^verbatim>\<open>obfuscateInteger(n)\<close> prints is a constant expression
  whose exact value is \<open>n\<close>, so that it compiles to the int64 \<open>n\<close>, for the exclusive-or
  strategy for every \<open>n\<close> and every draw, and for the other three strategies whenever
  the operand that the program computes before printing does not wrap around in int64:
  \<open>n - k\<close> for the additive strategy and \<open>n + k\<close> for the subtractive one (draw
  \<open>k = g 1 mod 1000 + 1\<close>), \<open>n * k\<close> for the multiplicative-division one (draw
  \<open>k = g 1 mod 10 + 2\<close>). In the last case the printed numerator is then an exact multiple
  of the printed divisor.
\<close>

theorem obfuscateInteger_roundtrip:
  assumes "g 0 mod 4 = 0 \<longrightarrow> - (2 ^ 63) \<le> sint n - (int (g 1 mod 1000) + 1)"
    and "g 0 mod 4 = 1 \<longrightarrow> sint n + (int (g 1 mod 1000) + 1) < 2 ^ 63"
    and "g 0 mod 4 = 3 \<longrightarrow>
           - (2 ^ 63) \<le> sint n * (int (g 1 mod 10) + 2) \<and>
           sint n * (int (g 1 mod 10) + 2) < 2 ^ 63"
  shows "const_value (fst (obfuscateInteger_expr n g)) = Some (sint n) \<and>
         eval_iexpr (fst (obfuscateInteger_expr n g)) = Some n \<and>
         (\<forall>a b. fst (obfuscateInteger_expr n g) = IBin a OpQuo b \<longrightarrow> sint b dvd sint a)"
proof -
  have v: "const_value (fst (obfuscateInteger_expr n g)) = Some (sint n)"
    using assms by (rule const_value_in_range)
  have d: "\<forall>a b. fst (obfuscateInteger_expr n g) = IBin a OpQuo b \<longrightarrow> sint b dvd sint a"
  proof (intro allI impI)
    fix a b
    assume q: "fst (obfuscateInteger_expr n g) = IBin a OpQuo b"
    have c: "g 0 mod 4 = 3"
    proof (rule ccontr)
      assume "g 0 mod 4 \<noteq> 3"
      then consider "g 0 mod 4 = 0" | "g 0 mod 4 = 1" | "g 0 mod 4 = 2" by linarith
      then show False using q
        by cases (simp_all add: obfuscateInteger_expr_def Intn_def Int63n_def Let_def)
    qed
    show "sint b dvd sint a" using quo_divides[OF _ _ q] assms(3) c by simp
  qed
  show ?thesis using v d eval_iexpr_exact[OF v] by simp
qed

theorem obfuscateInteger_roundtrip_witness:
  "fst (obfuscateInteger_expr 42 (\<lambda>i. 0)) = IBin 41 OpAdd 1 \<and>
   eval_iexpr (fst (obfuscateInteger_expr 42 (\<lambda>i. 0))) = Some 42 \<and>
   fst (obfuscateInteger_expr 42 (\<lambda>i. 1)) = IBin 44 OpSub 2 \<and>
   eval_iexpr (fst (obfuscateInteger_expr 42 (\<lambda>i. 1))) = Some 42 \<and>
   fst (obfuscateInteger_expr 42 (\<lambda>i. 2)) = IBin 41 OpXor 3 \<and>
   eval_iexpr (fst (obfuscateInteger_expr 42 (\<lambda>i. 2))) = Some 42 \<and>
   fst (obfuscateInteger_expr 42 (\<lambda>i. 3)) = IBin 210 OpQuo 5 \<and>
   const_value (fst (obfuscateInteger_expr 42 (\<lambda>i. 3))) = Some 42 \<and>
   eval_iexpr (fst (obfuscateInteger_expr 42 (\<lambda>i. 3))) = Some 42 \<and>
   sint (5::int64) dvd sint (210::int64)"
  using obfuscateInteger_roundtrip [of "\<lambda>i. 0" 42] obfuscateInteger_roundtrip [of "\<lambda>i. 1" 42]
    obfuscateInteger_roundtrip [of "\<lambda>i. 2" 42] obfuscateInteger_roundtrip [of "\<lambda>i. 3" 42]
  by (simp add: obfuscateInteger_expr_def Intn_def Int63n_def Let_def)

text \<open>
  C2 as stated fails where the printed operand wraps around. Additive, \<open>n = -2^63\<close>,
  \<open>k = 385\<close>: the program prints \<^verbatim>\<open>(9223372036854775423+385)\<close>, whose value \<open>2^63\<close> fits
  no int64, so the text does not compile. Subtractive, \<open>n = 2^63 - 1\<close>, \<open>k = 1\<close>: the value
  is \<open>-2^63 - 1\<close>. Multiplicative-division, \<open>n = 2^62\<close>: with \<open>k = 2\<close> the product wraps to
  \<open>-2^63\<close> and the quotient is \<open>-2^62\<close>; with \<open>k = 3\<close> the wrapped numerator \<open>-2^62\<close> is
  not a multiple of the divisor.
\<close>

theorem obfuscateInteger_overflow_counterexample:
  "fst (obfuscateInteger (- (2 ^ 63)) (\<lambda>i. if i = 0 then 0 else 384)) =
     ''(9223372036854775423+385)'' \<and>
   const_value (fst (obfuscateInteger_expr (- (2 ^ 63)) (\<lambda>i. if i = 0 then 0 else 384))) =
     Some (2 ^ 63) \<and>
   eval_iexpr (fst (obfuscateInteger_expr (- (2 ^ 63)) (\<lambda>i. if i = 0 then 0 else 384))) = None \<and>
   const_value (fst (obfuscateInteger_expr (2 ^ 63 - 1) (\<lambda>i. if i = 0 then 1 else 0))) =
     Some (- (2 ^ 63) - 1) \<and>
   eval_iexpr (fst (obfuscateInteger_expr (2 ^ 63 - 1) (\<lambda>i. if i = 0 then 1 else 0))) = None \<and>
   eval_iexpr (fst (obfuscateInteger_expr (2 ^ 62) (\<lambda>i. if i = 0 then 3 else 0))) =
     Some (- (2 ^ 62)) \<and>
   fst (obfuscateInteger_expr (2 ^ 62) (\<lambda>i. if i = 0 then 3 else 1)) = IBin (- (2 ^ 62)) OpQuo 3 \<and>
   \<not> sint (3 :: int64) dvd sint (- (2 ^ 62) :: int64)"
proof -
  have e0: "obfuscateInteger_expr (- (2 ^ 63)) (\<lambda>i. if i = 0 then 0 else 384) =
      (IBin (- (2 ^ 63) - 385) OpAdd 385, \<lambda>i. 384)"
    by (simp add: obfuscateInteger_expr_def Intn_def Int63n_def Let_def)
  have e1: "fst (obfuscateInteger_expr (- (2 ^ 63)) (\<lambda>i. if i = 0 then 0 else 384)) =
      IBin (- (2 ^ 63) - 385) OpAdd 385"
    by (simp only: e0 fst_conv)
  have e2: "fst (obfuscateInteger_expr (2 ^ 63 - 1) (\<lambda>i. if i = 0 then 1 else 0)) =
      IBin (2 ^ 63 - 1 + 1) OpSub 1"
    by (simp add: obfuscateInteger_expr_def Intn_def Int63n_def Let_def)
  have e3: "fst (obfuscateInteger_expr (2 ^ 62) (\<lambda>i. if i = 0 then 3 else 0)) =
      IBin (2 ^ 62 * 2) OpQuo 2"
    by (simp add: obfuscateInteger_expr_def Intn_def Int63n_def Let_def)
  have e4: "fst (obfuscateInteger_expr (2 ^ 62) (\<lambda>i. if i = 0 then 3 else 1)) =
      IBin (- (2 ^ 62)) OpQuo 3"
    by (simp add: obfuscateInteger_expr_def Intn_def Int63n_def Let_def)
  have s1: "sint (- (2 ^ 63) - 385 :: int64) = 9223372036854775423" by simp
  have s1': "sint (385 :: int64) = 385" by simp
  have s2: "sint (2 ^ 63 - 1 + 1 :: int64) = - (2 ^ 63)" by simp
  have s3: "sint (2 ^ 62 * 2 :: int64) = - (2 ^ 63)" by simp
  have t1: "fmt_d 9223372036854775423 = ''9223372036854775423''"
    by (simp add: fmt_d_def digit_char_def) code_simp
  have t2: "fmt_d 385 = ''385''"
    by (simp add: fmt_d_def digit_char_def) code_simp
  have r: "fst (obfuscateInteger (- (2 ^ 63)) (\<lambda>i. if i = 0 then 0 else 384)) =
      ''(9223372036854775423+385)''"
    by (simp only: obfuscateInteger_def e0 Let_def prod.case fst_conv render_iexpr.simps s1 s1' t1 t2
        binop_text.simps) simp
  have c1: "const_value (IBin (- (2 ^ 63) - 385) OpAdd 385) = Some (2 ^ 63)"
    by (simp only: const_value.simps s1) simp
  have c2: "const_value (IBin (2 ^ 63 - 1 + 1) OpSub 1) = Some (- (2 ^ 63) - 1)"
    by (simp only: const_value.simps s2) simp
  have c3: "const_value (IBin (2 ^ 62 * 2) OpQuo 2) = Some (- (2 ^ 62))"
    by (simp only: const_value.simps s3) (simp add: signed_divide_int_def)
  have v1: "eval_iexpr (IBin (- (2 ^ 63) - 385) OpAdd 385) = None"
    by (simp only: eval_iexpr_def c1) simp
  have v2: "eval_iexpr (IBin (2 ^ 63 - 1 + 1) OpSub 1) = None"
    by (simp only: eval_iexpr_def c2) simp
  have v3: "eval_iexpr (IBin (2 ^ 62 * 2) OpQuo 2) = Some (- (2 ^ 62))"
    by (simp only: eval_iexpr_def c3) simp
  have d: "\<not> sint (3 :: int64) dvd sint (- (2 ^ 62) :: int64)" by simp
  show ?thesis by (simp only: r e1 e2 e3 e4 c1 c2 v1 v2 v3 d simp_thms)
qed

text \<open>
  The only caller, the bare-integer sweep, passes \<open>10 < n \<le> 100000\<close>; there no operand
  wraps around and every strategy round-trips.
\<close>

lemma obfuscateInteger_sweep_range:
  assumes "10 < sint n" "sint n \<le> 100000"
  shows "eval_iexpr (fst (obfuscateInteger_expr n g)) = Some n"
proof -
  have a: "- (2 ^ 63) \<le> sint n - (int (g 1 mod 1000) + 1)"
  proof -
    have "(0::int) \<le> 1000 - (int (g 1 mod 1000) + 1)" by simp
    have "- (2 ^ 63) \<le> (10::int) - 1000" by simp
    also have "\<dots> \<le> sint n - (int (g 1 mod 1000) + 1)" using assms(1) by simp
    finally show ?thesis .
  qed
  have b: "sint n + (int (g 1 mod 1000) + 1) < 2 ^ 63"
  proof -
    have "sint n + (int (g 1 mod 1000) + 1) \<le> 100000 + 1000" using assms(2) by simp
    then show ?thesis by simp
  qed
  have lo: "- (2 ^ 63) \<le> sint n * (int (g 1 mod 10) + 2)"
  proof -
    have "0 \<le> sint n * (int (g 1 mod 10) + 2)" using assms by simp
    moreover have "- (2 ^ 63) \<le> (0::int)" by simp
    ultimately show ?thesis by (rule order_trans[rotated])
  qed
  have hi: "sint n * (int (g 1 mod 10) + 2) < 2 ^ 63"
  proof -
    have "sint n * (int (g 1 mod 10) + 2) \<le> 100000 * 11"
      using assms by (intro mult_mono) simp_all
    then show ?thesis by simp
  qed
  have "const_value (fst (obfuscateInteger_expr n g)) = Some (sint n)"
    using a b lo hi by (intro const_value_in_range) simp_all
  then show ?thesis by (rule eval_iexpr_exact)
qed

subsection \<open>Traversals and the name map\<close>

lemma freshName_fresh_aux:
  assumes "freshName nm g = Some r"
  shows "fst r \<notin> snd ` set nm"
  by (rule freshName.raw_induct[where P = "\<lambda>nm g r. fst r \<notin> snd ` set nm", OF _ assms])
     (force split: option.splits if_splits prod.splits)

lemma freshName_fresh:
  "freshName nm g = Some (x, g') \<Longrightarrow> x \<notin> snd ` set nm"
  using freshName_fresh_aux[of nm g "(x, g')"] by simp

lemma names_injective_update:
  assumes "names_injective nm" "x \<notin> snd ` set nm"
  shows "names_injective (AList.update k x nm)"
  unfolding names_injective_def
proof (intro allI impI)
  fix a b y
  assume h: "map_of (AList.update k x nm) a = Some y \<and> map_of (AList.update k x nm) b = Some y"
  have nx: "\<And>c. map_of nm c \<noteq> Some x"
    using assms(2) by (metis map_of_SomeD image_eqI snd_conv)
  show "a = b"
    using h assms(1) nx unfolding names_injective_def update_conv'
    by (auto split: if_splits)
qed

lemma getObfuscatedName_injective:
  assumes "names_injective (nameMap G)" "getObfuscatedName original G = Some (r, G')"
  shows "names_injective (nameMap G')"
  using assms freshName_fresh names_injective_update
  by (auto simp: getObfuscatedName_def split: option.splits)



























lemma getObfuscatedName_keeps: "getObfuscatedName x G = Some (r, G') \<Longrightarrow> keeps_injective G G'"
  using getObfuscatedName_injective by (auto simp: keeps_injective_def)

lemma keeps_injective_same: "nameMap G' = nameMap G \<Longrightarrow> keeps_injective G G'"
  by (simp add: keeps_injective_def)
































subsection \<open>Reserved names\<close>

text \<open>
  C4 fails on the code. \<^verbatim>\<open>collectStructTypes\<close> allocates a replacement for every declared
  type and \<^verbatim>\<open>obfuscateFunctions\<close> renames every declared function and method, and neither
  looks at \<^verbatim>\<open>reservedNames\<close>: on \<open>reservedProg\<close>, with every toggle at its default, the
  reserved names \<^verbatim>\<open>Error\<close> and \<^verbatim>\<open>String\<close> end up as keys of \<^verbatim>\<open>nameMap\<close> and the type and
  the method are renamed in the tree.
\<close>

theorem reserved_names_rewritten:
  "map_option (\<lambda>(ob, G). (astFile ob, nameMap G))
     (obfuscateTree allOn reservedProg (\<lambda>i. i div 20)) =
   Some
     (File \<lparr>Name = ''main'', Obj = None\<rparr>
       [GenDecl TYPE_tok
          [TypeSpec \<lparr>Name = ''aOOOOOOOOOOOOOOOOOOO'', Obj = Some Typ\<rparr> None
             (StructType (Some (FieldList
                [Field [\<lparr>Name = ''Code'', Obj = Some Var\<rparr>]
                   (Some (Ident \<lparr>Name = ''int'', Obj = None\<rparr>)) None])))],
        FuncDecl
          (Some (FieldList
             [Field [\<lparr>Name = ''b0000000000000000000'', Obj = Some Var\<rparr>]
                (Some (Ident \<lparr>Name = ''aOOOOOOOOOOOOOOOOOOO'', Obj = Some Typ\<rparr>)) None]))
          \<lparr>Name = ''cooooooooooooooooooo'', Obj = None\<rparr>
          (Other [FieldList [],
                  FieldList [Field [] (Some (Ident \<lparr>Name = ''string'', Obj = None\<rparr>)) None]])
          (Some (Other [Other [BasicLit [CHR 0x22, CHR ''x'', CHR 0x22]]])),
        FuncDecl None \<lparr>Name = ''main'', Obj = Some Fun\<rparr> (Other [FieldList []]) (Some (Other []))],
      [(''Error'', ''aOOOOOOOOOOOOOOOOOOO''),
       (''e'', ''b0000000000000000000''),
       (''String'', ''cooooooooooooooooooo'')])"
  by code_simp

subsection \<open>Struct types and type aliases\<close>

text \<open>What \<^verbatim>\<open>obfuscateStructTypes\<close> assigns to an identifier, case by case.\<close>

lemma structTypeName_field:
  "name \<in> fieldNameSet \<Longrightarrow> structTypeName fieldNameSet G name = name"
  by (simp add: structTypeName_def)

lemma structTypeName_struct:
  "name \<notin> fieldNameSet \<Longrightarrow> map_of (structTypeMapping G) name = Some r \<Longrightarrow>
   map_of (typeAliasMapping G) r = None \<Longrightarrow> structTypeName fieldNameSet G name = r"
  by (simp add: structTypeName_def)

lemma structTypeName_type_alias:
  "name \<notin> fieldNameSet \<Longrightarrow> map_of (structTypeMapping G) name = None \<Longrightarrow>
   map_of (typeAliasMapping G) name = Some r \<Longrightarrow> structTypeName fieldNameSet G name = r"
  by (simp add: structTypeName_def)

lemma structTypeName_chain:
  "name \<notin> fieldNameSet \<Longrightarrow> map_of (structTypeMapping G) name = Some r \<Longrightarrow>
   map_of (typeAliasMapping G) r = Some r' \<Longrightarrow> structTypeName fieldNameSet G name = r'"
  by (simp add: structTypeName_def)

text \<open>
  C6 fails on the code where the replacement recorded for a struct type is itself the
  name of a declared non-struct type: the second lookup reads the identifier after the
  first assignment. On \<open>chainProg\<close>, with a seed whose first generated name is
  \<^verbatim>\<open>aOOOOOOOOOOOOOOOOOOO\<close>, the identifier \<^verbatim>\<open>A\<close> is recorded with that replacement and is
  rewritten to the replacement of the other type instead; both types end up with one name.
\<close>

theorem struct_type_rewritten_twice:
  "map_option (\<lambda>(ob, G). (astFile ob, structTypeMapping G, typeAliasMapping G))
     (Option.bind (collectAll chainProg (\<lambda>i. i div 20)) (\<lambda>(ob, G). obfuscateStructTypes ob G)) =
   Some
     (File \<lparr>Name = ''main'', Obj = None\<rparr>
       [GenDecl TYPE_tok
          [TypeSpec \<lparr>Name = ''b0000000000000000000'', Obj = Some Typ\<rparr> None
             (StructType (Some (FieldList [])))],
        GenDecl TYPE_tok
          [TypeSpec \<lparr>Name = ''b0000000000000000000'', Obj = Some Typ\<rparr> None
             (Ident \<lparr>Name = ''int'', Obj = None\<rparr>)],
        GenDecl VAR_tok
          [ValueSpec [\<lparr>Name = ''x'', Obj = Some Var\<rparr>]
             (Some (Ident \<lparr>Name = ''b0000000000000000000'', Obj = Some Typ\<rparr>)) []]],
      [(''A'', ''aOOOOOOOOOOOOOOOOOOO'')],
      [(''aOOOOOOOOOOOOOOOOOOO'', ''b0000000000000000000'')])"
  by code_simp

subsection \<open>The import toggle\<close>

lemma erase_rename [simp]: "erase (rename x i) = erase i"
  by (simp add: erase_def rename_def)












lemma tame_fieldNameSet: "tame fieldNameSet_visit"
  by (auto simp: tame_def fieldNameSet_visit_def split: node.splits)

















subsection \<open>Identifiers that no pass rewrites\<close>













lemma update_keys: "fst ` set (AList.update k v al) = insert k (fst ` set al)"
  by (induction al) auto









lemma generated_astFile: "generated (snd (ob\<lparr>astFile := n\<rparr>, G)) = generated (snd (ob, G))"
  by simp






















lemma importDeclSpecs_mask: "importDeclSpecs (mask h d) = map (mask h) (importDeclSpecs d)"
  by (cases d) (simp_all add: importDeclSpecs_def)

lemma importSpecsOf_mask: "importSpecsOf (mask h f) = map (mask h) (importSpecsOf f)"
  by (cases f) (simp_all add: importSpecsOf_def importDeclSpecs_mask map_concat comp_def)

lemma mask_importSpecs:
  assumes "mask h a = mask h b"
  shows "map (mask h) (importSpecsOf a) = map (mask h) (importSpecsOf b)"
  using assms importSpecsOf_mask[of h a] importSpecsOf_mask[of h b] by simp






lemma mask_importSpecs_length:
  assumes "mask h a = mask h b"
  shows "length (importSpecsOf a) = length (importSpecsOf b)"
  using mask_importSpecs[OF assms] by (rule map_eq_imp_length_eq)








subsection \<open>Import aliasing\<close>
























end
